theory Spec2Isabelle
  imports Complex_Main "HOL-Library.Log_Nat"
begin

section \<open>JavaScript values\<close>

text \<open>
  The backend (\<^verbatim>\<open>src/backend/server.js\<close>) is an Express application whose three
  handlers work on loosely typed JSON: the request body, the remote response body and
  the webhook payload. Values are modelled as the JavaScript values they are.

  A Number is an IEEE double. It is represented by the rational it denotes, with the
  three special values on their own constructors. The two zeros are identified: the
  program only tests truthiness, compares with \<^verbatim>\<open><=\<close> and \<^verbatim>\<open>>\<close>, multiplies, adds,
  rounds and prints, and none of these tells \<^verbatim>\<open>-0\<close> from \<^verbatim>\<open>+0\<close>.
\<close>

datatype jsnum = NaN | PInf | NInf | Fin rat

datatype jsval =
    JUndefined
  | JNull
  | JBool bool
  | JNum jsnum
  | JStr string
  | JArr "jsval list"
  | JObj "(string \<times> jsval) list"

text \<open>ToBoolean: what \<^verbatim>\<open>!x\<close>, \<^verbatim>\<open>x || y\<close>, \<^verbatim>\<open>x && y\<close> and \<^verbatim>\<open>x ? a : b\<close> test.\<close>

fun truthy :: "jsval \<Rightarrow> bool" where
  "truthy JUndefined = False"
| "truthy JNull = False"
| "truthy (JBool b) = b"
| "truthy (JNum NaN) = False"
| "truthy (JNum (Fin q)) = (q \<noteq> 0)"
| "truthy (JNum _) = True"
| "truthy (JStr s) = (s \<noteq> [])"
| "truthy (JArr _) = True"
| "truthy (JObj _) = True"

text \<open>\<^verbatim>\<open>a || b\<close> and \<^verbatim>\<open>a && b\<close> return one of their operands.\<close>

definition js_or :: "jsval \<Rightarrow> jsval \<Rightarrow> jsval" where
  "js_or a b = (if truthy a then a else b)"

definition js_and :: "jsval \<Rightarrow> jsval \<Rightarrow> jsval" where
  "js_and a b = (if truthy a then b else a)"

text \<open>
  Property read \<^verbatim>\<open>v.k\<close> on a value that is neither \<^verbatim>\<open>null\<close> nor \<^verbatim>\<open>undefined\<close>. An
  object is the list of its own properties (keys are unique in a parsed JSON object).
  None of the names the handlers read (\<^verbatim>\<open>amount\<close>, \<^verbatim>\<open>payee\<close>, \<^verbatim>\<open>id\<close>, \<^verbatim>\<open>status\<close>,
  \<^verbatim>\<open>metadata\<close>, \<^verbatim>\<open>data\<close>, \<^verbatim>\<open>localId\<close>, ...) exists on the prototype of an array, a
  string, a number or a boolean, so reading them there gives \<^verbatim>\<open>undefined\<close>.
\<close>

fun get_prop :: "jsval \<Rightarrow> string \<Rightarrow> jsval" where
  "get_prop (JObj kvs) k = (case map_of kvs k of None \<Rightarrow> JUndefined | Some v \<Rightarrow> v)"
| "get_prop _ k = JUndefined"

definition nullish :: "jsval \<Rightarrow> bool" where
  "nullish v = (v = JUndefined \<or> v = JNull)"

text \<open>Optional chaining: \<^verbatim>\<open>v?.k\<close>, and a chain \<^verbatim>\<open>v?.a?.b?.c\<close> as \<open>path v [a, b, c]\<close>.\<close>

definition opt_prop :: "jsval \<Rightarrow> string \<Rightarrow> jsval" where
  "opt_prop v k = (if nullish v then JUndefined else get_prop v k)"

definition path :: "jsval \<Rightarrow> string list \<Rightarrow> jsval" where
  "path v ks = foldl opt_prop v ks"

section \<open>Numbers\<close>

subsection \<open>Rounding to a double\<close>

text \<open>
  Every arithmetic result is the exact result rounded to the nearest double, ties to the
  even significand: 53 significant bits, exponents from \<open>-1022\<close> (below it the spacing
  stays \<open>2\<^sup>-\<^sup>1\<^sup>0\<^sup>7\<^sup>4\<close>) to \<open>1023\<close>, and infinity from \<open>2\<^sup>1\<^sup>0\<^sup>2\<^sup>4\<close> on.
\<close>

definition pow2 :: "int \<Rightarrow> rat" where
  "pow2 e = (if 0 \<le> e then 2 ^ nat e else 1 / 2 ^ nat (- e))"

text \<open>For \<open>a > 0\<close>, the exponent \<open>e\<close> with \<open>2\<^sup>e \<le> a < 2\<^sup>e\<^sup>+\<^sup>1\<close>.\<close>

definition ilog2 :: "rat \<Rightarrow> int" where
  "ilog2 a =
     (if 1 \<le> a then bitlen \<lfloor>a\<rfloor> - 1
      else let j = bitlen \<lfloor>1 / a\<rfloor> - 1 in if a * 2 ^ nat j = 1 then - j else - j - 1)"

definition round_half_even :: "rat \<Rightarrow> int" where
  "round_half_even m =
     (let f = \<lfloor>m\<rfloor>; d = m - of_int f
      in if d < 1 / 2 then f else if 1 / 2 < d then f + 1 else if even f then f else f + 1)"

definition fl :: "rat \<Rightarrow> jsnum" where
  "fl q =
     (if q = 0 then Fin 0
      else let a = \<bar>q\<bar>;
               e = max (ilog2 a) (- 1022);
               u = pow2 (e - 52);
               v = of_int (round_half_even (a / u)) * u
           in if pow2 1024 \<le> v then (if 0 < q then PInf else NInf)
              else Fin (if 0 < q then v else - v))"

subsection \<open>Operators\<close>

text \<open>\<^verbatim>\<open>x * y\<close>, \<^verbatim>\<open>x + y\<close>, \<^verbatim>\<open>x <= y\<close>, \<^verbatim>\<open>x > y\<close>, unary minus and \<^verbatim>\<open>Number.isNaN\<close>.\<close>

fun js_mul :: "jsnum \<Rightarrow> jsnum \<Rightarrow> jsnum" where
  "js_mul NaN _ = NaN"
| "js_mul _ NaN = NaN"
| "js_mul (Fin a) (Fin b) = fl (a * b)"
| "js_mul (Fin a) PInf = (if a = 0 then NaN else if 0 < a then PInf else NInf)"
| "js_mul (Fin a) NInf = (if a = 0 then NaN else if 0 < a then NInf else PInf)"
| "js_mul PInf (Fin b) = (if b = 0 then NaN else if 0 < b then PInf else NInf)"
| "js_mul NInf (Fin b) = (if b = 0 then NaN else if 0 < b then NInf else PInf)"
| "js_mul PInf PInf = PInf"
| "js_mul PInf NInf = NInf"
| "js_mul NInf PInf = NInf"
| "js_mul NInf NInf = PInf"

fun js_add :: "jsnum \<Rightarrow> jsnum \<Rightarrow> jsnum" where
  "js_add NaN _ = NaN"
| "js_add _ NaN = NaN"
| "js_add (Fin a) (Fin b) = fl (a + b)"
| "js_add PInf NInf = NaN"
| "js_add NInf PInf = NaN"
| "js_add PInf _ = PInf"
| "js_add NInf _ = NInf"
| "js_add _ PInf = PInf"
| "js_add _ NInf = NInf"

fun js_le :: "jsnum \<Rightarrow> jsnum \<Rightarrow> bool" where
  "js_le NaN _ = False"
| "js_le _ NaN = False"
| "js_le NInf _ = True"
| "js_le _ PInf = True"
| "js_le PInf _ = False"
| "js_le _ NInf = False"
| "js_le (Fin a) (Fin b) = (a \<le> b)"

fun js_gt :: "jsnum \<Rightarrow> jsnum \<Rightarrow> bool" where
  "js_gt NaN _ = False"
| "js_gt _ NaN = False"
| "js_gt PInf PInf = False"
| "js_gt PInf _ = True"
| "js_gt NInf _ = False"
| "js_gt (Fin a) NInf = True"
| "js_gt (Fin a) PInf = False"
| "js_gt (Fin a) (Fin b) = (b < a)"

fun js_neg :: "jsnum \<Rightarrow> jsnum" where
  "js_neg NaN = NaN"
| "js_neg PInf = NInf"
| "js_neg NInf = PInf"
| "js_neg (Fin a) = Fin (- a)"

definition isNaN :: "jsnum \<Rightarrow> bool" where
  "isNaN x = (x = NaN)"

subsection \<open>\<^verbatim>\<open>Math.round\<close> and \<^verbatim>\<open>toString\<close>\<close>

text \<open>
  \<^verbatim>\<open>Math.round(x)\<close> is \<open>\<lfloor>x + 1/2\<rfloor>\<close>, computed exactly (a half rounds up); it leaves
  \<^verbatim>\<open>NaN\<close> and the infinities alone. Its result is an integral Number, kept as an \<open>int\<close>.
\<close>

datatype rounded = RNaN | RPInf | RNInf | RInt int

fun Math_round :: "jsnum \<Rightarrow> rounded" where
  "Math_round NaN = RNaN"
| "Math_round PInf = RPInf"
| "Math_round NInf = RNInf"
| "Math_round (Fin q) = RInt \<lfloor>q + 1 / 2\<rfloor>"

fun digits_of :: "nat \<Rightarrow> string" where
  "digits_of n =
     (if n < 10 then [''0123456789'' ! n]
      else digits_of (n div 10) @ [''0123456789'' ! (n mod 10)])"

declare digits_of.simps [simp del]

text \<open>
  \<^verbatim>\<open>Number.prototype.toString\<close> prints the shortest decimal that still rounds to the
  same double (the closest one of that length): for an integer below \<open>10\<^sup>2\<^sup>1\<close> its
  significant digits followed by zeros up to the units (\<open>2\<^sup>6\<^sup>4\<close> prints as
  \<^verbatim>\<open>18446744073709552000\<close>), and from \<open>10\<^sup>2\<^sup>1\<close> on the exponential notation
  \<^verbatim>\<open>d.ddde+nn\<close>. \<open>candidate N k\<close> looks for such a decimal with \<open>k\<close> significant
  digits, as the integer it denotes; seventeen digits always suffice for a double.
\<close>

definition candidate :: "nat \<Rightarrow> nat \<Rightarrow> nat option" where
  "candidate N k =
     (let p = 10 ^ (length (digits_of N) - k);
          lo = (N div p) * p;
          hi = lo + p;
          ok = (\<lambda>c. fl (of_nat c) = Fin (of_nat N))
      in if ok lo \<and> ok hi
         then Some (if N - lo < hi - N then lo
                    else if hi - N < N - lo then hi
                    else if even (N div p) then lo else hi)
         else if ok lo then Some lo
         else if ok hi then Some hi
         else None)"

fun shortest_from :: "nat \<Rightarrow> nat list \<Rightarrow> nat" where
  "shortest_from N [] = N"
| "shortest_from N (k # ks) =
     (case candidate N k of Some c \<Rightarrow> c | None \<Rightarrow> shortest_from N ks)"

definition shortest :: "nat \<Rightarrow> nat" where
  "shortest N = shortest_from N [1, 2, 3, 4, 5, 6, 7, 8, 9, 10, 11, 12, 13, 14, 15, 16, 17]"

definition exponential :: "nat \<Rightarrow> string" where
  "exponential N =
     (let ds = digits_of (shortest N);
          sig = rev (dropWhile (\<lambda>c. c = CHR ''0'') (rev ds))
      in hd sig # (if tl sig = [] then [] else CHR ''.'' # tl sig)
         @ ''e+'' @ digits_of (length ds - 1))"

definition magnitude_toString :: "nat \<Rightarrow> string" where
  "magnitude_toString N = (if N < 10 ^ 21 then digits_of (shortest N) else exponential N)"

fun Number_toString :: "rounded \<Rightarrow> string" where
  "Number_toString RNaN = ''NaN''"
| "Number_toString RPInf = ''Infinity''"
| "Number_toString RNInf = ''-Infinity''"
| "Number_toString (RInt n) =
     (if n < 0 then CHR ''-'' # magnitude_toString (nat (- n)) else magnitude_toString (nat n))"

subsection \<open>\<^verbatim>\<open>Number(v)\<close>\<close>

text \<open>
  Strings are byte strings; text outside ASCII is in UTF-8. \<^verbatim>\<open>Number\<close> of a string
  trims white space and line terminators at both ends (\<open>white_space\<close> lists them),
  reads the empty string as \<open>0\<close>, and otherwise accepts a signed decimal literal
  (\<^verbatim>\<open>Infinity\<close>, digits with an optional fraction and exponent) or an unsigned binary,
  octal or hexadecimal integer literal; anything else is \<^verbatim>\<open>NaN\<close>.
\<close>

definition white_space :: "string list" where
  "white_space =
     [[CHR 0x09], [CHR 0x0A], [CHR 0x0B], [CHR 0x0C], [CHR 0x0D], [CHR 0x20],
      [CHR 0xC2, CHR 0xA0], [CHR 0xE1, CHR 0x9A, CHR 0x80],
      [CHR 0xE2, CHR 0x80, CHR 0x80], [CHR 0xE2, CHR 0x80, CHR 0x81],
      [CHR 0xE2, CHR 0x80, CHR 0x82], [CHR 0xE2, CHR 0x80, CHR 0x83],
      [CHR 0xE2, CHR 0x80, CHR 0x84], [CHR 0xE2, CHR 0x80, CHR 0x85],
      [CHR 0xE2, CHR 0x80, CHR 0x86], [CHR 0xE2, CHR 0x80, CHR 0x87],
      [CHR 0xE2, CHR 0x80, CHR 0x88], [CHR 0xE2, CHR 0x80, CHR 0x89],
      [CHR 0xE2, CHR 0x80, CHR 0x8A], [CHR 0xE2, CHR 0x80, CHR 0xA8],
      [CHR 0xE2, CHR 0x80, CHR 0xA9], [CHR 0xE2, CHR 0x80, CHR 0xAF],
      [CHR 0xE2, CHR 0x81, CHR 0x9F], [CHR 0xE3, CHR 0x80, CHR 0x80],
      [CHR 0xEF, CHR 0xBB, CHR 0xBF]]"

text \<open>The length of the token of \<open>toks\<close> that \<open>s\<close> starts with, or \<open>0\<close>.\<close>

definition token_prefix :: "string list \<Rightarrow> string \<Rightarrow> nat" where
  "token_prefix toks s =
     (case find (\<lambda>t. t \<noteq> [] \<and> take (length t) s = t) toks of
        None \<Rightarrow> 0 | Some t \<Rightarrow> length t)"

function strip :: "string list \<Rightarrow> string \<Rightarrow> string" where
  "strip toks s = (if token_prefix toks s = 0 then s else strip toks (drop (token_prefix toks s) s))"
  by pat_completeness auto
termination
proof (relation "measure (\<lambda>(toks, s). length s)")
  show "wf (measure (\<lambda>(toks, s). length s))" by simp
next
  fix toks :: "string list" and s :: string
  assume nz: "token_prefix toks s \<noteq> 0"
  then obtain t where "t \<noteq> []" and "take (length t) s = t"
    by (auto simp: token_prefix_def find_Some_iff split: option.splits)
  then have "s \<noteq> []" by auto
  with nz show "((toks, drop (token_prefix toks s) s), (toks, s)) \<in> measure (\<lambda>(toks, s). length s)"
    by simp
qed

declare strip.simps [simp del]

definition trim :: "string \<Rightarrow> string" where
  "trim s = rev (strip (map rev white_space) (rev (strip white_space s)))"

definition is_digit :: "char \<Rightarrow> bool" where
  "is_digit c = (c \<in> set ''0123456789'')"

definition hex_val :: "char \<Rightarrow> nat option" where
  "hex_val c =
     (if c \<in> set ''0123456789'' then Some (of_char c - 48)
      else if c \<in> set ''abcdef'' then Some (of_char c - 87)
      else if c \<in> set ''ABCDEF'' then Some (of_char c - 55)
      else None)"

text \<open>The value of a digit string in base \<open>b\<close>, when every character is a digit of that base.\<close>

fun radix_val :: "nat \<Rightarrow> nat \<Rightarrow> string \<Rightarrow> nat option" where
  "radix_val b acc [] = Some acc"
| "radix_val b acc (c # cs) =
     (case hex_val c of
        None \<Rightarrow> None
      | Some d \<Rightarrow> if d < b then radix_val b (acc * b + d) cs else None)"

definition radix_literal :: "nat \<Rightarrow> string \<Rightarrow> jsnum" where
  "radix_literal b ds =
     (if ds = [] then NaN
      else case radix_val b 0 ds of None \<Rightarrow> NaN | Some n \<Rightarrow> fl (of_nat n))"

definition pow10 :: "int \<Rightarrow> rat" where
  "pow10 e = (if 0 \<le> e then 10 ^ nat e else 1 / 10 ^ nat (- e))"

text \<open>The exponent part: empty, or \<^verbatim>\<open>e\<close>/\<^verbatim>\<open>E\<close>, an optional sign and at least one digit.\<close>

definition exponent_part :: "string \<Rightarrow> int option" where
  "exponent_part r =
     (case r of
        [] \<Rightarrow> Some 0
      | c # t \<Rightarrow>
          if c = CHR ''e'' \<or> c = CHR ''E''
          then (let ds = (case t of [] \<Rightarrow> [] | x # d \<Rightarrow> if x = CHR ''+'' \<or> x = CHR ''-'' then d else t);
                    neg = (case t of [] \<Rightarrow> False | x # d \<Rightarrow> x = CHR ''-'')
                in case (if ds = [] then None else radix_val 10 0 ds) of
                     None \<Rightarrow> None
                   | Some n \<Rightarrow> Some (if neg then - int n else int n))
          else None)"

definition unsigned_decimal :: "string \<Rightarrow> jsnum" where
  "unsigned_decimal s =
     (if s = ''Infinity'' then PInf
      else let ip = takeWhile is_digit s;
               r1 = dropWhile is_digit s;
               dot = (r1 \<noteq> [] \<and> hd r1 = CHR ''.'');
               fp = (if dot then takeWhile is_digit (tl r1) else []);
               r2 = (if dot then dropWhile is_digit (tl r1) else r1)
           in if ip = [] \<and> fp = [] then NaN
              else case (radix_val 10 0 (ip @ fp), exponent_part r2) of
                     (Some n, Some ex) \<Rightarrow> fl (of_nat n * pow10 (ex - int (length fp)))
                   | _ \<Rightarrow> NaN)"

definition StringToNumber :: "string \<Rightarrow> jsnum" where
  "StringToNumber s =
     (let t = trim s
      in if t = [] then Fin 0
         else if take 2 t = ''0x'' \<or> take 2 t = ''0X'' then radix_literal 16 (drop 2 t)
         else if take 2 t = ''0o'' \<or> take 2 t = ''0O'' then radix_literal 8 (drop 2 t)
         else if take 2 t = ''0b'' \<or> take 2 t = ''0B'' then radix_literal 2 (drop 2 t)
         else if hd t = CHR ''+'' then unsigned_decimal (tl t)
         else if hd t = CHR ''-'' then js_neg (unsigned_decimal (tl t))
         else unsigned_decimal t)"

text \<open>
  Converting an object to a primitive calls its \<^verbatim>\<open>valueOf\<close> and \<^verbatim>\<open>toString\<close>. A value
  parsed from JSON holds no function, so an object with an own property \<^verbatim>\<open>toString\<close>
  hides the inherited method and the conversion throws a TypeError; so does the
  conversion of an array that holds such an object, since an array prints its elements.
  Any other object prints as \<^verbatim>\<open>[object Object]\<close>.
\<close>

fun unprintable :: "jsval \<Rightarrow> bool" where
  "unprintable (JObj kvs) = (''toString'' \<in> set (map fst kvs))"
| "unprintable (JArr xs) = (\<exists>x \<in> set xs. unprintable x)"
| "unprintable _ = False"

text \<open>
  The number of a value whose conversion to a primitive returns. An array is converted
  through its string: the empty array gives \<open>0\<close>, an array of one element the number of
  that element's string (the empty string for \<^verbatim>\<open>null\<close>; a Number prints to a string
  that reads back as itself), and a longer one \<^verbatim>\<open>NaN\<close>, since its string has a comma.
\<close>

fun ToNumber :: "jsval \<Rightarrow> jsnum" where
  "ToNumber JUndefined = NaN"
| "ToNumber JNull = Fin 0"
| "ToNumber (JBool b) = (if b then Fin 1 else Fin 0)"
| "ToNumber (JNum n) = n"
| "ToNumber (JStr s) = StringToNumber s"
| "ToNumber (JObj _) = NaN"
| "ToNumber (JArr []) = Fin 0"
| "ToNumber (JArr [JUndefined]) = Fin 0"
| "ToNumber (JArr [JNull]) = Fin 0"
| "ToNumber (JArr [JBool b]) = NaN"
| "ToNumber (JArr [JNum n]) = n"
| "ToNumber (JArr [JStr s]) = StringToNumber s"
| "ToNumber (JArr [JObj _]) = NaN"
| "ToNumber (JArr [JArr xs]) = ToNumber (JArr xs)"
| "ToNumber (JArr (_ # _ # _)) = NaN"

text \<open>\<^verbatim>\<open>Number(v)\<close>, and \<^verbatim>\<open>`${v}`\<close> as far as it can throw.\<close>

datatype exn = TypeError | RangeError | FetchError | BindError | SqliteError

definition Number :: "jsval \<Rightarrow> exn + jsnum" where
  "Number v = (if unprintable v then Inl TypeError else Inr (ToNumber v))"

section \<open>The remote gateway client\<close>

text \<open>
  The payload of \<^verbatim>\<open>POST {payee}/incoming-payments\<close>. Two strings are kept unexpanded:
  the default memo (the template \<^verbatim>\<open>Pago por servicio (${amount} ${currency})\<close> over the
  request's \<^verbatim>\<open>amount\<close> and \<^verbatim>\<open>currency\<close>) and \<^verbatim>\<open>expiresAt\<close> (the time value in
  milliseconds whose ISO rendering is sent).
\<close>

datatype memo = Memo jsval | DefaultMemo jsval jsval

record payload =
  walletAddress :: string
  incomingAmount_value :: string
  incomingAmount_assetCode :: jsval
  incomingAmount_assetScale :: nat
  metadata_localId :: string
  metadata_memo :: memo
  expiresAt :: "int option"

record request =
  rq_url :: string
  rq_method :: string
  rq_authorization :: string
  rq_body :: "payload option"

text \<open>
  \<^verbatim>\<open>callApi\<close> awaits \<^verbatim>\<open>fetch\<close>, reads the body as text and tries \<^verbatim>\<open>JSON.parse\<close>:
  the result carries \<^verbatim>\<open>json\<close> when the text parses and \<^verbatim>\<open>text\<close> otherwise. The
  remote side is a function from the request to what \<^verbatim>\<open>fetch\<close> does with it: it
  rejects (a network failure, thrown to the handler's \<^verbatim>\<open>catch\<close>) or it resolves with
  a response of any status code. The body of a response is given already classified:
  the value \<^verbatim>\<open>JSON.parse\<close> returns, or the text on which it throws.
  \<^verbatim>\<open>res.headers.raw()\<close> maps each lower-cased header name to the list of its values.
\<close>

datatype body = Parsed jsval | Unparsable string

record response =
  r_status :: nat
  r_headers :: "(string \<times> string list) list"
  r_body :: body

datatype fetch_result = Rejects | Resolves response

text \<open>The object \<^verbatim>\<open>callApi\<close> returns: \<^verbatim>\<open>{status, headers, json}\<close> or \<^verbatim>\<open>{status, headers, text}\<close>.\<close>

record op =
  op_status :: nat
  op_headers :: "(string \<times> string list) list"
  op_json :: jsval
  op_text :: "string option"

definition op_of :: "response \<Rightarrow> op" where
  "op_of r =
     (case r_body r of
        Parsed j \<Rightarrow> \<lparr>op_status = r_status r, op_headers = r_headers r, op_json = j, op_text = None\<rparr>
      | Unparsable t \<Rightarrow>
          \<lparr>op_status = r_status r, op_headers = r_headers r, op_json = JUndefined, op_text = Some t\<rparr>)"

text \<open>
  The configuration read from the environment, and what a handler takes from outside
  while it runs: the remote side, the results of its calls of \<^verbatim>\<open>randomUUID()\<close> in
  order, \<^verbatim>\<open>Date.now()\<close> and the store's \<^verbatim>\<open>CURRENT_TIMESTAMP\<close>.
\<close>

record config =
  OPEN_PAYMENTS_BASE :: string
  OPEN_PAYMENTS_API_KEY :: string

record effects =
  fetch :: "request \<Rightarrow> fetch_result"
  randomUUID :: "string \<times> string"
  Date_now :: int
  CURRENT_TIMESTAMP :: nat

definition callApi :: "config \<Rightarrow> effects \<Rightarrow> string \<Rightarrow> string \<Rightarrow> payload option \<Rightarrow> request \<times> (exn + op)" where
  "callApi cfg fx url method body =
     (let rq = \<lparr>rq_url = url, rq_method = method,
                 rq_authorization = ''Bearer '' @ OPEN_PAYMENTS_API_KEY cfg, rq_body = body\<rparr>
      in (rq, case fetch fx rq of Rejects \<Rightarrow> Inl FetchError | Resolves r \<Rightarrow> Inr (op_of r)))"

section \<open>The record store\<close>

text \<open>
  The table \<^verbatim>\<open>payments\<close>, a list of rows in insertion order. The storage engine and
  its driver are external collaborators, modelled at the interface the handlers use.

  A statement binds one argument to each placeholder. The driver binds a string as
  text, a number as a real and \<^verbatim>\<open>null\<close> as \<^verbatim>\<open>NULL\<close>; it throws for a boolean, and an
  object is not bound to a placeholder at all, which leaves the statement short of a
  value and makes it throw as well. What the driver does with an array is left out:
  the statement is taken to throw for it too. A statement that throws changes no row.

  The columns \<^verbatim>\<open>currency\<close>, \<^verbatim>\<open>status\<close> and \<^verbatim>\<open>resource_url\<close> are declared \<^verbatim>\<open>TEXT\<close>: a real
  bound there is stored as the text the engine prints for it (\<^verbatim>\<open>123\<close> as \<^verbatim>\<open>'123.0'\<close>),
  which \<open>SqlReal\<close> stands for in such a column. \<^verbatim>\<open>op_response\<close> holds
  \<^verbatim>\<open>JSON.stringify\<close> of the value given here, unserialised.
\<close>

datatype sqlval = SqlNull | SqlText string | SqlReal jsnum

fun bindable :: "jsval \<Rightarrow> bool" where
  "bindable JUndefined = True"
| "bindable JNull = True"
| "bindable (JNum n) = True"
| "bindable (JStr s) = True"
| "bindable (JBool b) = False"
| "bindable (JArr xs) = False"
| "bindable (JObj kvs) = False"

fun bound :: "jsval \<Rightarrow> sqlval" where
  "bound (JNum n) = SqlReal n"
| "bound (JStr s) = SqlText s"
| "bound _ = SqlNull"

datatype blob = OpBlob op | PayloadBlob jsval

record payment =
  p_id :: string
  p_local_id :: string
  p_amount :: jsnum
  p_currency :: sqlval
  p_payee :: string
  p_status :: sqlval
  p_resource_url :: sqlval
  p_op_response :: blob
  p_created_at :: nat

type_synonym db = "payment list"

text \<open>
  \<^verbatim>\<open>INSERT INTO payments (id, local_id, amount, currency, payee, status, resource_url,
  op_response) VALUES (?, ?, ?, ?, ?, ?, ?, ?)\<close>; \<^verbatim>\<open>id\<close> is the primary key and
  \<^verbatim>\<open>created_at\<close> defaults to \<^verbatim>\<open>CURRENT_TIMESTAMP\<close>.
\<close>

definition insert_payment ::
  "string \<Rightarrow> string \<Rightarrow> jsnum \<Rightarrow> jsval \<Rightarrow> string \<Rightarrow> string \<Rightarrow> jsval \<Rightarrow> blob \<Rightarrow> nat \<Rightarrow> db \<Rightarrow> exn + db" where
  "insert_payment i l amount currency payee status resource_url op_response now d =
     (if \<not> bindable currency \<or> \<not> bindable resource_url then Inl BindError
      else if i \<in> set (map p_id d) then Inl SqliteError
      else Inr (d @ [\<lparr>p_id = i, p_local_id = l, p_amount = amount, p_currency = bound currency,
                      p_payee = payee, p_status = SqlText status,
                      p_resource_url = bound resource_url, p_op_response = op_response,
                      p_created_at = now\<rparr>]))"

text \<open>
  \<^verbatim>\<open>WHERE local_id = ?\<close>: the column holds the identifiers that the creation handler
  generated, and a row matches a bound text equal to its identifier. \<^verbatim>\<open>NULL\<close> equals
  nothing, and the text of a number is no such identifier.
\<close>

fun matches :: "sqlval \<Rightarrow> payment \<Rightarrow> bool" where
  "matches (SqlText s) p = (s = p_local_id p)"
| "matches _ p = False"

text \<open>\<^verbatim>\<open>UPDATE payments SET status = ?, op_response = ? WHERE local_id = ?\<close> (poll path).\<close>

definition update_status :: "jsval \<Rightarrow> blob \<Rightarrow> jsval \<Rightarrow> db \<Rightarrow> exn + db" where
  "update_status status op_response local_id d =
     (if \<not> bindable status \<or> \<not> bindable local_id then Inl BindError
      else Inr (map (\<lambda>p. if matches (bound local_id) p
                         then p\<lparr>p_status := bound status, p_op_response := op_response\<rparr>
                         else p) d))"

text \<open>
  \<^verbatim>\<open>UPDATE payments SET status = ?, op_response = ?, resource_url = ? WHERE local_id = ?\<close>
  (webhook path).
\<close>

definition update_webhook :: "jsval \<Rightarrow> blob \<Rightarrow> jsval \<Rightarrow> jsval \<Rightarrow> db \<Rightarrow> exn + db" where
  "update_webhook status op_response resource_url local_id d =
     (if \<not> bindable status \<or> \<not> bindable resource_url \<or> \<not> bindable local_id then Inl BindError
      else Inr (map (\<lambda>p. if matches (bound local_id) p
                         then p\<lparr>p_status := bound status, p_op_response := op_response,
                                p_resource_url := bound resource_url\<rparr>
                         else p) d))"

text \<open>
  The poll and the webhook handler run their update inside a \<^verbatim>\<open>try\<close> whose \<^verbatim>\<open>catch\<close>
  only logs: a statement that throws leaves the table as it was.
\<close>

definition logged :: "db \<Rightarrow> exn + db \<Rightarrow> db" where
  "logged d r = (case r of Inl x \<Rightarrow> d | Inr d' \<Rightarrow> d')"

section \<open>HTTP replies\<close>

text \<open>
  \<open>ErrorBody e\<close> is \<^verbatim>\<open>{success: false, error: e}\<close>, \<open>ExnBody x\<close> the same with
  \<^verbatim>\<open>String(err)\<close> of a caught exception, \<open>CreatedBody l i u op\<close> is
  \<^verbatim>\<open>{success: true, localId: l, localDbId: i, resource_url: u, op}\<close>, \<open>StatusBody op\<close> is
  \<^verbatim>\<open>{success: true, op}\<close> and \<open>TextBody\<close> a plain text.
\<close>

datatype reply_body =
    ErrorBody string
  | ExnBody exn
  | CreatedBody string string jsval op
  | StatusBody op
  | TextBody string

record reply =
  http_status :: nat
  content :: reply_body

definition success :: "reply \<Rightarrow> bool" where
  "success r = (case content r of CreatedBody _ _ _ _ \<Rightarrow> True | StatusBody _ \<Rightarrow> True | _ \<Rightarrow> False)"

section \<open>POST /create-payment\<close>

text \<open>\<^verbatim>\<open>Math.round(parsed * Math.pow(10, assetScale)).toString()\<close> with \<^verbatim>\<open>assetScale = 2\<close>.\<close>

definition assetScale :: nat where
  "assetScale = 2"

definition valueInt :: "jsnum \<Rightarrow> string" where
  "valueInt parsed = Number_toString (Math_round (js_mul parsed (Fin (10 ^ assetScale))))"

text \<open>
  \<^verbatim>\<open>new Date(Date.now() + Number(expiresInSeconds) * 1000).toISOString()\<close>, computed when
  \<^verbatim>\<open>expiresInSeconds && Number(expiresInSeconds) > 0\<close>. \<^verbatim>\<open>Number\<close> may throw. A time
  value is clipped to \<open>\<plusminus>8.64\<cdot>10\<^sup>1\<^sup>5\<close> ms and truncated; \<^verbatim>\<open>toISOString\<close> throws a
  RangeError on an invalid date.
\<close>

definition truncate :: "rat \<Rightarrow> int" where
  "truncate t = (if 0 \<le> t then \<lfloor>t\<rfloor> else \<lceil>t\<rceil>)"

definition expiry :: "int \<Rightarrow> jsval \<Rightarrow> exn + int option" where
  "expiry now expiresInSeconds =
     (if \<not> truthy expiresInSeconds then Inr None
      else case Number expiresInSeconds of
             Inl x \<Rightarrow> Inl x
           | Inr seconds \<Rightarrow>
               if js_gt seconds (Fin 0)
               then (case js_add (Fin (of_int now)) (js_mul seconds (Fin 1000)) of
                       Fin t \<Rightarrow> if \<bar>t\<bar> \<le> 8640000000000000 then Inr (Some (truncate t))
                                else Inl RangeError
                     | _ \<Rightarrow> Inl RangeError)
               else Inr None)"

text \<open>\<^verbatim>\<open>s.replace(/\/+$/, "")\<close> and \<^verbatim>\<open>s.replace(/^\/+/, "")\<close>.\<close>

definition strip_trailing_slashes :: "string \<Rightarrow> string" where
  "strip_trailing_slashes s = rev (dropWhile (\<lambda>c. c = CHR ''/'') (rev s))"

definition strip_leading_slashes :: "string \<Rightarrow> string" where
  "strip_leading_slashes s = dropWhile (\<lambda>c. c = CHR ''/'') s"

text \<open>\<^verbatim>\<open>op.headers.location && op.headers.location[0]\<close> (\<^verbatim>\<open>op.headers\<close> is always an object).\<close>

definition location0 :: "op \<Rightarrow> jsval" where
  "location0 op =
     (case map_of (op_headers op) ''location'' of
        None \<Rightarrow> JUndefined
      | Some [] \<Rightarrow> JUndefined
      | Some (v # _) \<Rightarrow> JStr v)"

text \<open>
  \<^verbatim>\<open>(op.json && (op.json.id || location0)) ? (op.json?.id || location0) : null\<close>
\<close>

definition extract_resource_url :: "op \<Rightarrow> jsval" where
  "extract_resource_url op =
     (if truthy (js_and (op_json op) (js_or (get_prop (op_json op) ''id'') (location0 op)))
      then js_or (opt_prop (op_json op) ''id'') (location0 op)
      else JNull)"

definition statusText :: "op \<Rightarrow> string" where
  "statusText op = (if op_status op = 201 \<or> op_status op = 200 then ''created'' else ''pending'')"

text \<open>
  The handler. Its result is the reply, the table afterwards and the outbound requests
  made, in order. An exception thrown inside the \<^verbatim>\<open>try\<close> is answered by the \<^verbatim>\<open>catch\<close>
  with status 500: destructuring a body that is \<^verbatim>\<open>undefined\<close> or \<^verbatim>\<open>null\<close>,
  \<^verbatim>\<open>Number(amount)\<close> or the default memo on a value that cannot be converted,
  \<^verbatim>\<open>toISOString\<close> of an invalid date, \<^verbatim>\<open>payee.replace\<close> on a truthy value that is not
  a string, a rejected \<^verbatim>\<open>fetch\<close>, and an insert that throws.
\<close>

definition fails :: "exn \<Rightarrow> reply" where
  "fails x = \<lparr>http_status = 500, content = ExnBody x\<rparr>"

definition rejected :: "string \<Rightarrow> reply" where
  "rejected e = \<lparr>http_status = 400, content = ErrorBody e\<rparr>"

text \<open>The destructuring default \<^verbatim>\<open>currency = "MXN"\<close> applies to \<^verbatim>\<open>undefined\<close> only.\<close>

definition currency_of :: "jsval \<Rightarrow> jsval" where
  "currency_of body =
     (if get_prop body ''currency'' = JUndefined then JStr ''MXN'' else get_prop body ''currency'')"

text \<open>
  The object \<^verbatim>\<open>payload\<close>, for the parsed amount, the payee \<open>p\<close> and the expiry computed.
  The default memo is built, by a template that prints \<^verbatim>\<open>amount\<close> and \<^verbatim>\<open>currency\<close>,
  only when the request has no truthy \<^verbatim>\<open>memo\<close>; \<open>memo_throws\<close> tells when that fails.
\<close>

definition memo_throws :: "jsval \<Rightarrow> bool" where
  "memo_throws body =
     (\<not> truthy (get_prop body ''memo'')
      \<and> (unprintable (get_prop body ''amount'') \<or> unprintable (currency_of body)))"

definition build_payload :: "effects \<Rightarrow> jsval \<Rightarrow> jsnum \<Rightarrow> string \<Rightarrow> int option \<Rightarrow> payload" where
  "build_payload fx body parsed p expires =
     \<lparr>walletAddress = p,
      incomingAmount_value = valueInt parsed,
      incomingAmount_assetCode = currency_of body,
      incomingAmount_assetScale = assetScale,
      metadata_localId = fst (randomUUID fx),
      metadata_memo = (if truthy (get_prop body ''memo'') then Memo (get_prop body ''memo'')
                       else DefaultMemo (get_prop body ''amount'') (currency_of body)),
      expiresAt = expires\<rparr>"

definition create_payment :: "config \<Rightarrow> effects \<Rightarrow> jsval \<Rightarrow> db \<Rightarrow> reply \<times> db \<times> request list" where
  "create_payment cfg fx body d =
     (if nullish body then (fails TypeError, d, [])
      else
        let amount = get_prop body ''amount'';
            payee = get_prop body ''payee'';
            expiresInSeconds = get_prop body ''expiresInSeconds''
        in
        if \<not> truthy amount \<or> \<not> truthy payee then (rejected ''amount and payee required'', d, [])
        else
          case Number amount of
            Inl x \<Rightarrow> (fails x, d, [])
          | Inr parsed \<Rightarrow>
              if isNaN parsed \<or> js_le parsed (Fin 0) then (rejected ''invalid amount'', d, [])
              else if memo_throws body then (fails TypeError, d, [])
              else
                case expiry (Date_now fx) expiresInSeconds of
                  Inl x \<Rightarrow> (fails x, d, [])
                | Inr expires \<Rightarrow>
                    (case payee of
                       JStr p \<Rightarrow>
                         let payload = build_payload fx body parsed p expires;
                             targetUrl = strip_trailing_slashes p @ ''/incoming-payments'';
                             (rq, res) = callApi cfg fx targetUrl ''POST'' (Some payload)
                         in (case res of
                               Inl x \<Rightarrow> (fails x, d, [rq])
                             | Inr op \<Rightarrow>
                                 let localDbId = snd (randomUUID fx);
                                     resource_url = extract_resource_url op
                                 in (case insert_payment localDbId (metadata_localId payload) parsed
                                            (currency_of body) p (statusText op) resource_url
                                            (OpBlob op) (CURRENT_TIMESTAMP fx) d of
                                       Inl x \<Rightarrow> (fails x, d, [rq])
                                     | Inr d' \<Rightarrow>
                                         (\<lparr>http_status = 200,
                                           content = CreatedBody (metadata_localId payload) localDbId
                                                       resource_url op\<rparr>,
                                          d', [rq])))
                     | _ \<Rightarrow> (fails TypeError, d, [])))"

section \<open>GET /status/*\<close>

text \<open>The URL fetched for the path after \<^verbatim>\<open>/status/\<close>.\<close>

definition status_url :: "config \<Rightarrow> string \<Rightarrow> string" where
  "status_url cfg raw =
     (if take 7 raw = ''http://'' \<or> take 8 raw = ''https://'' then raw
      else (if OPEN_PAYMENTS_BASE cfg \<noteq> [] then strip_trailing_slashes (OPEN_PAYMENTS_BASE cfg) else [])
           @ ''/'' @ strip_leading_slashes raw)"

text \<open>The two extractions of the inner \<^verbatim>\<open>try\<close>, from \<^verbatim>\<open>opJson = op.json || null\<close>.\<close>

definition poll_localId :: "op \<Rightarrow> jsval" where
  "poll_localId op =
     (let opJson = js_or (op_json op) JNull
      in js_or (path opJson [''metadata'', ''localId'']) JNull)"

definition poll_status :: "op \<Rightarrow> jsval" where
  "poll_status op =
     (let opJson = js_or (op_json op) JNull
      in js_or (js_or (path opJson [''status''])
                      (if truthy (path opJson [''receiveAmount'']) then JStr ''received'' else JNull))
               JNull)"

definition get_status :: "config \<Rightarrow> effects \<Rightarrow> string \<Rightarrow> db \<Rightarrow> reply \<times> db \<times> request list" where
  "get_status cfg fx raw d =
     (if raw = [] then (rejected ''resource path required'', d, [])
      else
        let (rq, res) = callApi cfg fx (status_url cfg raw) ''GET'' None
        in case res of
             Inl x \<Rightarrow> (fails x, d, [rq])
           | Inr op \<Rightarrow>
               let localId = poll_localId op;
                   newStatus = poll_status op
               in (\<lparr>http_status = 200, content = StatusBody op\<rparr>,
                   if truthy localId \<and> truthy newStatus
                   then logged d (update_status newStatus (OpBlob op) localId d)
                   else d,
                   [rq]))"

section \<open>POST /webhook\<close>

text \<open>The three extractions of the handler, in source order.\<close>

definition webhook_localId :: "jsval \<Rightarrow> jsval" where
  "webhook_localId payload =
     js_or (js_or (js_or (path payload [''data'', ''metadata'', ''localId''])
                         (path payload [''metadata'', ''localId'']))
                  (path payload [''metadata'', ''local_id'']))
           JNull"

definition webhook_status :: "jsval \<Rightarrow> jsval" where
  "webhook_status payload =
     js_or (js_or (path payload [''data'', ''status'']) (path payload [''status'']))
           (JStr ''webhook_updated'')"

definition webhook_resource_url :: "jsval \<Rightarrow> jsval" where
  "webhook_resource_url payload =
     js_or (js_or (path payload [''data'', ''id'']) (path payload [''id''])) JNull"

definition webhook :: "jsval \<Rightarrow> db \<Rightarrow> reply \<times> db" where
  "webhook payload d =
     (let localId = webhook_localId payload;
          newStatus = webhook_status payload;
          resource_url = webhook_resource_url payload
      in (\<lparr>http_status = 200, content = TextBody ''ok''\<rparr>,
          if truthy localId
          then logged d (update_webhook newStatus (PayloadBlob payload) resource_url localId d)
          else d))"

section \<open>Vocabulary of the statements\<close>

text \<open>
  The row that a creation appends for the parsed amount, the payee \<open>p\<close> and the result
  \<open>op\<close> of the remote call.
\<close>

definition build_row :: "effects \<Rightarrow> jsval \<Rightarrow> jsnum \<Rightarrow> string \<Rightarrow> op \<Rightarrow> payment" where
  "build_row fx body parsed p op =
     \<lparr>p_id = snd (randomUUID fx),
      p_local_id = fst (randomUUID fx),
      p_amount = parsed,
      p_currency = bound (currency_of body),
      p_payee = p,
      p_status = SqlText (statusText op),
      p_resource_url = bound (extract_resource_url op),
      p_op_response = OpBlob op,
      p_created_at = CURRENT_TIMESTAMP fx\<rparr>"

text \<open>
  Kinds of value that a handler may pass to a statement: a boolean or an object, which
  the driver refuses, an array, and a string.
\<close>

fun refused :: "jsval \<Rightarrow> bool" where
  "refused (JBool b) = True"
| "refused (JObj kvs) = True"
| "refused _ = False"

fun is_array :: "jsval \<Rightarrow> bool" where
  "is_array (JArr xs) = True"
| "is_array _ = False"

fun is_string :: "jsval \<Rightarrow> bool" where
  "is_string (JStr s) = True"
| "is_string _ = False"

section \<open>Scenarios\<close>

text \<open>
  Concrete data for the scenarios of the specification: a merchant wallet, a table with
  two records, and remote sides that answer a creation with \<^verbatim>\<open>201\<close> and an \<^verbatim>\<open>id\<close>,
  with \<^verbatim>\<open>202\<close> and no \<^verbatim>\<open>id\<close>, with \<^verbatim>\<open>201\<close>, a \<^verbatim>\<open>Location\<close> header and an empty body,
  a poll of a completed resource, and a poll of a resource whose \<^verbatim>\<open>receiveAmount\<close> is
  the number \<open>0\<close>.
\<close>

definition merchant :: string where
  "merchant = ''https://wallet.example/merchant''"

definition resource :: string where
  "resource = ''https://wallet.example/merchant/incoming-payments/abc''"

definition example_config :: config where
  "example_config =
     \<lparr>OPEN_PAYMENTS_BASE = ''https://wallet.example/'', OPEN_PAYMENTS_API_KEY = ''TEST_KEY''\<rparr>"

definition example_op :: op where
  "example_op =
     \<lparr>op_status = 201, op_headers = [], op_json = JObj [(''id'', JStr resource)], op_text = None\<rparr>"

definition example_row :: payment where
  "example_row =
     \<lparr>p_id = ''db-1'', p_local_id = ''L1'', p_amount = Fin 5, p_currency = SqlText ''MXN'',
      p_payee = merchant, p_status = SqlText ''created'', p_resource_url = SqlText resource,
      p_op_response = OpBlob example_op, p_created_at = 0\<rparr>"

definition other_row :: payment where
  "other_row =
     \<lparr>p_id = ''db-2'', p_local_id = ''L2'', p_amount = Fin 7, p_currency = SqlText ''USD'',
      p_payee = ''https://wallet.example/other'', p_status = SqlText ''pending'',
      p_resource_url = SqlNull, p_op_response = OpBlob example_op, p_created_at = 1\<rparr>"

definition remote :: "response \<Rightarrow> effects" where
  "remote r =
     \<lparr>fetch = (\<lambda>rq. Resolves r), randomUUID = (''uuid-1'', ''uuid-2''),
      Date_now = 1000, CURRENT_TIMESTAMP = 2\<rparr>"

definition created_201 :: response where
  "created_201 = \<lparr>r_status = 201, r_headers = [], r_body = Parsed (JObj [(''id'', JStr resource)])\<rparr>"


definition located_201 :: response where
  "located_201 = \<lparr>r_status = 201, r_headers = [(''location'', [resource])], r_body = Unparsable []\<rparr>"

definition polled :: response where
  "polled =
     \<lparr>r_status = 200, r_headers = [],
      r_body = Parsed (JObj [(''id'', JStr resource),
                             (''status'', JStr ''completed''),
                             (''receiveAmount'', JObj [(''value'', JStr ''500'')]),
                             (''metadata'', JObj [(''localId'', JStr ''L1'')])])\<rparr>"

definition polled_zero :: response where
  "polled_zero =
     \<lparr>r_status = 200, r_headers = [],
      r_body = Parsed (JObj [(''receiveAmount'', JNum (Fin 0)),
                             (''metadata'', JObj [(''localId'', JStr ''L1'')])])\<rparr>"

text \<open>A request body \<^verbatim>\<open>{amount, payee}\<close> for the merchant, as the front end posts it.\<close>

definition pay :: "jsval \<Rightarrow> jsval" where
  "pay amount = JObj [(''amount'', amount), (''payee'', JStr merchant)]"

text \<open>
  The request the handler sends for a payload, and the minor-unit value in the words of
  the specification: \<open>round(a \<times> 100)\<close> as a base-10 integer string.
\<close>

definition incoming_payment_request :: "config \<Rightarrow> string \<Rightarrow> payload \<Rightarrow> request" where
  "incoming_payment_request cfg p pl =
     \<lparr>rq_url = strip_trailing_slashes p @ ''/incoming-payments'', rq_method = ''POST'',
      rq_authorization = ''Bearer '' @ OPEN_PAYMENTS_API_KEY cfg, rq_body = Some pl\<rparr>"

definition spec_minor_units :: "rat \<Rightarrow> string" where
  "spec_minor_units a = digits_of (nat (round (a * 100)))"

text \<open>
  What the scenario \<^verbatim>\<open>createPayment(amount = 5.00, payee = merchant)\<close> sends, and the
  row it stores for a given classification, resource URL and response.
\<close>

definition scenario_request :: "string \<Rightarrow> string \<Rightarrow> request" where
  "scenario_request amount v =
     \<lparr>rq_url = ''https://wallet.example/merchant/incoming-payments'', rq_method = ''POST'',
      rq_authorization = ''Bearer TEST_KEY'',
      rq_body = Some \<lparr>walletAddress = merchant, incomingAmount_value = v,
                       incomingAmount_assetCode = JStr ''MXN'', incomingAmount_assetScale = 2,
                       metadata_localId = ''uuid-1'',
                       metadata_memo = DefaultMemo (JStr amount) (JStr ''MXN''),
                       expiresAt = None\<rparr>\<rparr>"

definition scenario_row :: "jsnum \<Rightarrow> string \<Rightarrow> jsval \<Rightarrow> response \<Rightarrow> payment" where
  "scenario_row a st u r =
     \<lparr>p_id = ''uuid-2'', p_local_id = ''uuid-1'', p_amount = a, p_currency = SqlText ''MXN'',
      p_payee = merchant, p_status = SqlText st, p_resource_url = bound u,
      p_op_response = OpBlob (op_of r), p_created_at = 2\<rparr>"


section \<open>Properties of the store and of the extractions\<close>

text \<open>
  An update keeps every column it does not set, a statement that throws keeps them
  all, and the extractions written with \<^verbatim>\<open>||\<close> and \<^verbatim>\<open>?.\<close> are case distinctions on
  truthiness.
\<close>

lemmas path_simps = path_def opt_prop_def nullish_def

lemma truthy_not_null: "truthy v \<Longrightarrow> v \<noteq> JNull"
  by auto

lemma bindable_cases:
  "bindable v \<longleftrightarrow> v = JUndefined \<or> v = JNull \<or> (\<exists>n. v = JNum n) \<or> (\<exists>s. v = JStr s)"
  by (cases v) auto

lemma refused_not_bindable: "refused v \<Longrightarrow> \<not> bindable v"
  by (cases v) auto

lemma matches_bound:
  "truthy l \<Longrightarrow> bindable l \<Longrightarrow> matches (bound l) p \<longleftrightarrow> l = JStr (p_local_id p)"
  by (cases l) auto

lemma bound_truthy: "truthy v \<Longrightarrow> bindable v \<Longrightarrow> bound v \<noteq> SqlNull"
  by (cases v) auto

lemma logged_update_status:
  "logged d (update_status st b lid d) =
     (if bindable st \<and> bindable lid
      then map (\<lambda>p. if matches (bound lid) p then p\<lparr>p_status := bound st, p_op_response := b\<rparr>
                     else p) d
      else d)"
  by (simp add: logged_def update_status_def)

lemma logged_update_webhook:
  "logged d (update_webhook st b u lid d) =
     (if bindable st \<and> bindable u \<and> bindable lid
      then map (\<lambda>p. if matches (bound lid) p
                     then p\<lparr>p_status := bound st, p_op_response := b, p_resource_url := bound u\<rparr>
                     else p) d
      else d)"
  by (simp add: logged_def update_webhook_def)

lemma update_status_frame:
  "map p_id (logged d (update_status st b lid d)) = map p_id d"
  "map p_local_id (logged d (update_status st b lid d)) = map p_local_id d"
  "map p_amount (logged d (update_status st b lid d)) = map p_amount d"
  "map p_currency (logged d (update_status st b lid d)) = map p_currency d"
  "map p_payee (logged d (update_status st b lid d)) = map p_payee d"
  "map p_resource_url (logged d (update_status st b lid d)) = map p_resource_url d"
  "map p_created_at (logged d (update_status st b lid d)) = map p_created_at d"
  by (simp_all add: logged_update_status)

lemma update_status_length: "length (logged d (update_status st b lid d)) = length d"
  by (simp add: logged_update_status)

lemma update_status_nth:
  "i < length d \<Longrightarrow>
   logged d (update_status st b lid d) ! i =
     (if bindable st \<and> bindable lid \<and> matches (bound lid) (d ! i)
      then (d ! i)\<lparr>p_status := bound st, p_op_response := b\<rparr> else d ! i)"
  by (simp add: logged_update_status)

lemma update_webhook_length: "length (logged d (update_webhook st b u lid d)) = length d"
  by (simp add: logged_update_webhook)

lemma update_webhook_resource_url:
  "map p_resource_url (logged d (update_webhook st b u lid d)) =
     map (\<lambda>p. if bindable st \<and> bindable u \<and> bindable lid \<and> matches (bound lid) p
               then bound u else p_resource_url p) d"
  by (auto simp: logged_update_webhook)

lemma poll_status_eq:
  "poll_status op =
     (if truthy (op_json op) \<and> truthy (get_prop (op_json op) ''status'')
      then get_prop (op_json op) ''status''
      else if truthy (op_json op) \<and> truthy (get_prop (op_json op) ''receiveAmount'')
      then JStr ''received''
      else JNull)"
  by (cases "op_json op") (auto simp: poll_status_def js_or_def Let_def path_simps)

lemma poll_localId_eq:
  "poll_localId op =
     (if truthy (op_json op) \<and> truthy (path (op_json op) [''metadata'', ''localId''])
      then path (op_json op) [''metadata'', ''localId'']
      else JNull)"
  by (cases "op_json op") (auto simp: poll_localId_def js_or_def Let_def path_simps)

lemma webhook_resource_url_eq:
  "webhook_resource_url payload =
     (if truthy (path payload [''data'', ''id'']) then path payload [''data'', ''id'']
      else if truthy (path payload [''id'']) then path payload [''id'']
      else JNull)"
  by (simp add: webhook_resource_url_def js_or_def)

lemma op_of_status [simp]: "op_status (op_of r) = r_status r"
  by (simp add: op_of_def split: body.splits)

lemma op_of_headers [simp]: "op_headers (op_of r) = r_headers r"
  by (simp add: op_of_def split: body.splits)

lemma op_of_json:
  "op_json (op_of r) = (case r_body r of Parsed j \<Rightarrow> j | Unparsable t \<Rightarrow> JUndefined)"
  by (simp add: op_of_def split: body.splits)

lemma op_of_text:
  "op_text (op_of r) = (case r_body r of Parsed j \<Rightarrow> None | Unparsable t \<Rightarrow> Some t)"
  by (simp add: op_of_def split: body.splits)

lemma extract_resource_url_eq:
  "extract_resource_url op =
     (if truthy (op_json op) \<and> truthy (get_prop (op_json op) ''id'')
      then get_prop (op_json op) ''id''
      else if truthy (op_json op) \<and> truthy (location0 op) then location0 op
      else JNull)"
  by (auto simp: extract_resource_url_def js_and_def js_or_def opt_prop_def nullish_def)

section \<open>Properties of the numbers\<close>

text \<open>
  \<open>ilog2\<close> is characterised by its bounds, which is how a rounding is evaluated at a
  given number: the exponent is supplied and checked, the rest is arithmetic.
\<close>

lemma pow2_powi: "pow2 e = 2 powi e"
  by (simp add: pow2_def power_int_def field_simps)

lemma pow2_pos: "0 < pow2 e"
  by (simp add: pow2_powi zero_less_power_int)

lemma pow2_strict_mono: "e < f \<Longrightarrow> pow2 e < pow2 f"
  by (simp add: pow2_powi power_int_strict_increasing)

lemma pow2_mono: "e \<le> f \<Longrightarrow> pow2 e \<le> pow2 f"
  using pow2_strict_mono [of e f] by (cases "e = f") auto

lemma pow2_add: "pow2 (e + f) = pow2 e * pow2 f"
  by (simp add: pow2_powi power_int_add)

lemma pow2_neg: "pow2 (- e) = 1 / pow2 e"
  by (simp add: pow2_powi power_int_minus field_simps)

lemma floor_bitlen_bounds:
  fixes a :: rat
  assumes "1 \<le> a"
  shows "2 ^ nat (bitlen \<lfloor>a\<rfloor> - 1) \<le> a" and "a < 2 ^ nat (bitlen \<lfloor>a\<rfloor>)"
proof -
  let ?x = "\<lfloor>a\<rfloor>"
  from assms have x: "0 < ?x" by simp
  from bitlen_bounds [OF x] have lo: "2 ^ nat (bitlen ?x - 1) \<le> ?x" and hi: "?x < 2 ^ nat (bitlen ?x)"
    by auto
  have "(of_int (2 ^ nat (bitlen ?x - 1)) :: rat) \<le> of_int ?x"
    using lo by (simp only: of_int_le_iff)
  also have "\<dots> \<le> a" by simp
  finally show "2 ^ nat (bitlen ?x - 1) \<le> a" by simp
  from hi have "?x + 1 \<le> 2 ^ nat (bitlen ?x)" by simp
  then have "(of_int (?x + 1) :: rat) \<le> of_int (2 ^ nat (bitlen ?x))"
    by (simp only: of_int_le_iff)
  moreover have "a < of_int (?x + 1)" by simp linarith
  ultimately show "a < 2 ^ nat (bitlen ?x)" by simp
qed

lemma ilog2_bounds:
  assumes "0 < a"
  shows "pow2 (ilog2 a) \<le> a \<and> a < pow2 (ilog2 a + 1)"
proof (cases "1 \<le> a")
  case True
  let ?b = "bitlen \<lfloor>a\<rfloor>"
  from True have "0 < \<lfloor>a\<rfloor>" by simp
  then have b: "1 \<le> ?b" using bitlen_eq_zero_iff [of "\<lfloor>a\<rfloor>"] bitlen_nonneg [of "\<lfloor>a\<rfloor>"] by linarith
  from True have il: "ilog2 a = ?b - 1" by (simp add: ilog2_def)
  from floor_bitlen_bounds [OF True] b show ?thesis
    by (simp add: il pow2_def)
next
  case False
  with assms have c: "1 \<le> 1 / a" by simp
  let ?b = "bitlen \<lfloor>1 / a\<rfloor>"
  let ?j = "?b - 1"
  from c have "0 < \<lfloor>1 / a\<rfloor>" by simp
  then have b: "1 \<le> ?b"
    using bitlen_eq_zero_iff [of "\<lfloor>1 / a\<rfloor>"] bitlen_nonneg [of "\<lfloor>1 / a\<rfloor>"] by linarith
  from floor_bitlen_bounds [OF c] have lo: "2 ^ nat ?j \<le> 1 / a" and hi: "1 / a < 2 ^ nat ?b"
    by auto
  from lo assms have up: "a * 2 ^ nat ?j \<le> 1" by (simp add: field_simps)
  from hi assms have dn: "1 < a * 2 ^ nat ?b" by (simp add: field_simps)
  show ?thesis
  proof (cases "a * 2 ^ nat ?j = 1")
    case True
    with False have il: "ilog2 a = - ?j" by (simp add: ilog2_def Let_def)
    from True have a: "a = 1 / 2 ^ nat ?j" by (simp add: field_simps)
    have "pow2 ?j = 2 ^ nat ?j" using b by (simp add: pow2_def)
    then have "pow2 (- ?j) = 1 / 2 ^ nat ?j" by (simp only: pow2_neg)
    with a have "pow2 (- ?j) = a" by simp
    moreover have "pow2 (- ?j + 1) = 2 * a"
      using pow2_add [of "- ?j" 1] \<open>pow2 (- ?j) = a\<close> by (simp add: pow2_def)
    ultimately show ?thesis using assms by (simp add: il)
  next
    case ne: False
    with False have il: "ilog2 a = - ?j - 1" by (simp add: ilog2_def Let_def)
    have "pow2 ?b = 2 ^ nat ?b" using b by (simp add: pow2_def)
    then have p1: "pow2 (- ?b) = 1 / 2 ^ nat ?b" by (simp only: pow2_neg)
    have "pow2 ?j = 2 ^ nat ?j" using b by (simp add: pow2_def)
    then have p2: "pow2 (- ?j) = 1 / 2 ^ nat ?j" by (simp only: pow2_neg)
    from dn have "1 / 2 ^ nat ?b < a" by (simp add: field_simps)
    moreover from up ne have "a * 2 ^ nat ?j < 1" by simp
    then have "a < 1 / 2 ^ nat ?j" by (simp add: field_simps)
    ultimately show ?thesis using p1 p2 by (simp add: il)
  qed
qed

lemma ilog2_eqI:
  assumes "pow2 e \<le> a" and "a < pow2 (e + 1)"
  shows "ilog2 a = e"
proof -
  from assms pow2_pos [of e] have "0 < a" by linarith
  from ilog2_bounds [OF this] have lo: "pow2 (ilog2 a) \<le> a" and hi: "a < pow2 (ilog2 a + 1)"
    by auto
  have "\<not> ilog2 a < e"
  proof
    assume "ilog2 a < e"
    then have "pow2 (ilog2 a + 1) \<le> pow2 e" by (intro pow2_mono) simp
    with hi assms show False by linarith
  qed
  moreover have "\<not> e < ilog2 a"
  proof
    assume "e < ilog2 a"
    then have "pow2 (e + 1) \<le> pow2 (ilog2 a)" by (intro pow2_mono) simp
    with lo assms show False by linarith
  qed
  ultimately show ?thesis by linarith
qed

text \<open>Evaluation of \<open>digits_of\<close>, of floors and of \<^verbatim>\<open>Number\<close> at literals.\<close>

lemmas digits_of_numeral = digits_of.simps [of "numeral k" for k]

lemma digits_of_small: "digits_of 0 = ''0''" "digits_of 1 = ''1''" "digits_of (Suc 0) = ''1''"
  by (simp_all add: digits_of.simps)

lemma floor_numeral_div:
  "\<lfloor>(numeral a :: rat) / numeral b\<rfloor> = numeral a div numeral b"
  "\<lfloor>- ((numeral a :: rat) / numeral b)\<rfloor> = - numeral a div numeral b"
  using floor_divide_of_int_eq [of "numeral a" "numeral b", where ?'a = rat]
        floor_divide_of_int_eq [of "- numeral a" "numeral b", where ?'a = rat]
  by simp_all

lemmas string_to_number_simps =
  StringToNumber_def trim_def strip.simps token_prefix_def white_space_def unsigned_decimal_def
  is_digit_def hex_val_def exponent_part_def radix_literal_def pow10_def Let_def

lemma fl_5: "fl 5 = Fin 5"
proof -
  have "ilog2 5 = 2" by (rule ilog2_eqI) (simp_all add: pow2_def)
  then show ?thesis by (simp add: fl_def pow2_def round_half_even_def Let_def)
qed

lemma fl_500: "fl 500 = Fin 500"
proof -
  have "ilog2 500 = 8" by (rule ilog2_eqI) (simp_all add: pow2_def)
  then show ?thesis by (simp add: fl_def pow2_def round_half_even_def Let_def)
qed

lemma Number_5_00: "StringToNumber ''5.00'' = Fin 5"
  by (simp add: string_to_number_simps fl_5)

lemma Number_Infinity: "StringToNumber ''Infinity'' = PInf"
  by (simp add: string_to_number_simps)

lemma Number_abc: "StringToNumber ''abc'' = NaN"
  by (simp add: string_to_number_simps)

lemma valueInt_PInf: "valueInt PInf = ''Infinity''"
  by (simp add: valueInt_def assetScale_def)

text \<open>
  \<open>digits_of\<close> writes digits only, and reading them back gives the number: the string
  is a base-10 integer string.
\<close>

lemma digit_char:
  assumes "d < 10"
  shows "''0123456789'' ! d \<in> set ''0123456789''" and "hex_val (''0123456789'' ! d) = Some d"
proof -
  from assms have "d \<in> {0, 1, 2, 3, 4, 5, 6, 7, 8, 9}" by auto
  then show "''0123456789'' ! d \<in> set ''0123456789''" and "hex_val (''0123456789'' ! d) = Some d"
    by (auto simp: hex_val_def)
qed

lemma radix_val_append:
  "radix_val b acc (xs @ ys) =
     (case radix_val b acc xs of None \<Rightarrow> None | Some a \<Rightarrow> radix_val b a ys)"
  by (induction xs arbitrary: acc) (auto split: option.splits)

lemma digits_of_nonempty: "digits_of n \<noteq> []"
  by (subst digits_of.simps) simp

lemma digits_of_digits: "set (digits_of n) \<subseteq> set ''0123456789''"
proof (induction n rule: digits_of.induct)
  case (1 n)
  show ?case
  proof (cases "n < 10")
    case True
    then show ?thesis using digit_char(1) [of n] by (subst digits_of.simps) simp
  next
    case False
    have "n mod 10 < 10" by simp
    from digit_char(1) [OF this] 1 [OF False] False show ?thesis
      by (subst digits_of.simps) simp
  qed
qed

lemma digits_of_value: "radix_val 10 0 (digits_of n) = Some n"
proof (induction n rule: digits_of.induct)
  case (1 n)
  show ?case
  proof (cases "n < 10")
    case True
    then show ?thesis using digit_char(2) [of n] by (subst digits_of.simps) simp
  next
    case False
    have m: "n mod 10 < 10" by simp
    from digit_char(2) [OF m] 1 [OF False] False show ?thesis
      by (subst digits_of.simps) (simp add: radix_val_append)
  qed
qed

text \<open>
  Rounding keeps the sign, and the integers up to \<open>2\<^sup>5\<^sup>3\<close> are doubles: rounding
  leaves them as they are.
\<close>

lemma round_half_even_nonneg: "0 \<le> m \<Longrightarrow> 0 \<le> round_half_even m"
  by (auto simp: round_half_even_def Let_def)

lemma fl_nonneg:
  assumes "0 \<le> q" and "fl q = Fin v"
  shows "0 \<le> v"
proof (cases "q = 0")
  case True
  with assms show ?thesis by (simp add: fl_def)
next
  case False
  with assms have q: "0 < q" by simp
  let ?u = "pow2 (max (ilog2 \<bar>q\<bar>) (- 1022) - 52)"
  have "0 \<le> \<bar>q\<bar> / ?u" using pow2_pos [of "max (ilog2 \<bar>q\<bar>) (- 1022) - 52"] by simp
  then have "0 \<le> of_int (round_half_even (\<bar>q\<bar> / ?u)) * ?u"
    using round_half_even_nonneg pow2_pos [of "max (ilog2 \<bar>q\<bar>) (- 1022) - 52"] by simp
  with assms q show ?thesis
    by (auto simp: fl_def Let_def split: if_splits)
qed

lemma accepted_product_nonneg:
  assumes "\<not> isNaN parsed" and "\<not> js_le parsed (Fin 0)" and "js_mul parsed (Fin 100) = Fin pr"
  shows "0 \<le> pr"
proof (cases parsed)
  case (Fin a)
  with assms have "0 < a" and "fl (a * 100) = Fin pr" by auto
  then show ?thesis using fl_nonneg [of "a * 100" pr] by simp
qed (use assms in \<open>auto simp: isNaN_def\<close>)

lemma round_half_even_of_int: "round_half_even (of_int k) = k"
  by (simp add: round_half_even_def)

lemma fl_exactI:
  assumes q: "0 < q"
      and e: "ilog2 q = e" and lo: "- 1022 \<le> e"
      and k: "q / pow2 (e - 52) = of_int k"
      and hi: "q < pow2 1024"
  shows "fl q = Fin q"
proof -
  have u: "0 < pow2 (e - 52)" by (rule pow2_pos)
  from k u have v: "of_int k * pow2 (e - 52) = q" by (simp add: field_simps)
  from lo have m: "max e (- 1022) = e" by simp
  from hi have below: "\<not> pow2 1024 \<le> q" by simp
  from q e show ?thesis
    by (simp add: fl_def Let_def m k round_half_even_of_int v below)
qed

lemma fl_of_nat:
  assumes "n \<le> 2 ^ 53"
  shows "fl (of_nat n) = Fin (of_nat n)"
proof (cases "n = 0")
  case True
  then show ?thesis by (simp add: fl_def)
next
  case False
  let ?a = "of_nat n :: rat"
  let ?e = "ilog2 ?a"
  from False have pos: "0 < ?a" and one: "1 \<le> ?a" by simp_all
  from assms have "?a \<le> of_nat (2 ^ 53)" by (simp only: of_nat_le_iff)
  then have top: "?a \<le> 2 ^ 53" by simp
  from ilog2_bounds [OF pos] have b1: "pow2 ?e \<le> ?a" and b2: "?a < pow2 (?e + 1)" by auto
  have e0: "0 \<le> ?e"
  proof (rule ccontr)
    assume "\<not> 0 \<le> ?e"
    then have "pow2 (?e + 1) \<le> pow2 0" by (intro pow2_mono) simp
    with b2 one show False by (simp add: pow2_def)
  qed
  have e53: "?e \<le> 53"
  proof (rule ccontr)
    assume "\<not> ?e \<le> 53"
    then have "pow2 54 \<le> pow2 ?e" by (intro pow2_mono) simp
    with b1 top show False by (simp add: pow2_def)
  qed
  have hi: "?a < pow2 1024"
  proof -
    have "pow2 53 < pow2 1024" by (intro pow2_strict_mono) simp
    with top show ?thesis by (simp add: pow2_def)
  qed
  have "\<exists>k. ?a / pow2 (?e - 52) = of_int k"
  proof (cases "?e \<le> 52")
    case True
    have "pow2 (?e - 52) = 1 / pow2 (52 - ?e)" using pow2_neg [of "52 - ?e"] by simp
    moreover have "pow2 (52 - ?e) = 2 ^ nat (52 - ?e)" using True by (simp add: pow2_def)
    ultimately have "?a / pow2 (?e - 52) = of_int (int n * 2 ^ nat (52 - ?e))" by simp
    then show ?thesis ..
  next
    case False
    with e53 have e: "?e = 53" by simp
    with b1 top have "?a = 2 ^ 53" by (simp add: pow2_def)
    with e have "?a / pow2 (?e - 52) = of_int (2 ^ 52)" by (simp add: pow2_def)
    then show ?thesis ..
  qed
  then obtain k where k: "?a / pow2 (?e - 52) = of_int k" ..
  from e0 have "- 1022 \<le> ?e" by simp
  from fl_exactI [OF pos refl this k hi] show ?thesis .
qed

text \<open>
  A number from \<open>2\<^sup>5\<^sup>3\<close> on does not round below \<open>2\<^sup>5\<^sup>3\<close>. So the only natural number
  that rounds to an integer below \<open>2\<^sup>5\<^sup>3\<close> is that integer, and the shortest decimal
  that \<^verbatim>\<open>toString\<close> finds for it is the integer itself.
\<close>

lemma round_half_even_ge:
  assumes "of_int k \<le> m"
  shows "k \<le> round_half_even m"
proof -
  from assms have "k \<le> \<lfloor>m\<rfloor>" by (simp add: le_floor_iff)
  then show ?thesis by (auto simp: round_half_even_def Let_def)
qed

lemma fl_ge_pow53:
  assumes big: "2 ^ 53 \<le> q" and v: "fl q = Fin v"
  shows "2 ^ 53 \<le> v"
proof -
  let ?e = "ilog2 q"
  let ?u = "pow2 (?e - 52)"
  from big have pos: "0 < q" by (simp add: less_le_trans [of 0 "2 ^ 53" q])
  from ilog2_bounds [OF pos] have b1: "pow2 ?e \<le> q" and b2: "q < pow2 (?e + 1)" by auto
  have e53: "53 \<le> ?e"
  proof (rule ccontr)
    assume "\<not> 53 \<le> ?e"
    then have "pow2 (?e + 1) \<le> pow2 53" by (intro pow2_mono) simp
    with b2 big show False by (simp add: pow2_def)
  qed
  then have m: "max ?e (- 1022) = ?e" by simp
  have u: "0 < ?u" by (rule pow2_pos)
  have "pow2 ?e = pow2 52 * ?u" using pow2_add [of 52 "?e - 52"] by simp
  then have split: "pow2 ?e = 2 ^ 52 * ?u" by (simp add: pow2_def)
  with b1 u have "2 ^ 52 \<le> q / ?u" by (simp add: field_simps)
  then have "(of_int (2 ^ 52) :: rat) \<le> q / ?u" by simp
  from round_half_even_ge [OF this] have "2 ^ 52 \<le> round_half_even (q / ?u)" .
  then have "(of_int (2 ^ 52) :: rat) \<le> of_int (round_half_even (q / ?u))"
    by (simp only: of_int_le_iff)
  then have "2 ^ 52 * ?u \<le> of_int (round_half_even (q / ?u)) * ?u"
    using u by simp
  with split have low: "pow2 ?e \<le> of_int (round_half_even (q / ?u)) * ?u" by simp
  have "pow2 53 \<le> pow2 ?e" using e53 by (rule pow2_mono)
  with low have "2 ^ 53 \<le> of_int (round_half_even (q / ?u)) * ?u" by (simp add: pow2_def)
  moreover from v pos have "v = of_int (round_half_even (q / ?u)) * ?u"
    by (simp add: fl_def Let_def m split: if_splits)
  ultimately show ?thesis by simp
qed

lemma fl_of_nat_unique:
  assumes "N < 2 ^ 53" and "fl (of_nat c) = Fin (of_nat N)"
  shows "c = N"
proof (cases "c \<le> 2 ^ 53")
  case True
  from fl_of_nat [OF True] assms(2) show ?thesis by simp
next
  case False
  then have "(2 :: nat) ^ 53 \<le> c" by simp
  then have "(of_nat (2 ^ 53) :: rat) \<le> of_nat c" by (simp only: of_nat_le_iff)
  then have "(2 :: rat) ^ 53 \<le> of_nat c" by simp
  from fl_ge_pow53 [OF this assms(2)] have "(of_nat (2 ^ 53) :: rat) \<le> of_nat N" by simp
  then have "(2 :: nat) ^ 53 \<le> N" by (simp only: of_nat_le_iff)
  with assms(1) show ?thesis by simp
qed

lemma candidate_rounds:
  assumes "candidate N k = Some c"
  shows "fl (of_nat c) = Fin (of_nat N)"
  using assms by (auto simp: candidate_def Let_def split: if_splits)

lemma shortest_from_small:
  assumes "N < 2 ^ 53"
  shows "shortest_from N ks = N"
proof (induction ks)
  case Nil
  show ?case by simp
next
  case (Cons k ks)
  show ?case
  proof (cases "candidate N k")
    case None
    with Cons show ?thesis by simp
  next
    case (Some c)
    from fl_of_nat_unique [OF assms candidate_rounds [OF Some]] Some show ?thesis by simp
  qed
qed

lemma shortest_small: "N < 2 ^ 53 \<Longrightarrow> shortest N = N"
  unfolding shortest_def by (rule shortest_from_small)

text \<open>
  The value sent, by the size of \<open>\<lfloor>p + 1/2\<rfloor>\<close> for the product \<open>p\<close>: its digits below
  \<open>2\<^sup>5\<^sup>3\<close>, digits still below \<open>10\<^sup>2\<^sup>1\<close>, and the exponential notation from there on.
\<close>

lemma valueInt_digits:
  assumes "js_mul parsed (Fin 100) = Fin pr" and "0 \<le> pr" and "round pr < 10 ^ 21"
  shows "valueInt parsed = digits_of (shortest (nat (round pr)))"
proof -
  from assms(2) have "0 \<le> round pr" by (simp add: round_def)
  moreover from assms(3) this have "nat (round pr) < 10 ^ 21"
    by (simp add: nat_less_iff)
  ultimately show ?thesis using assms(1)
    by (simp add: valueInt_def assetScale_def magnitude_toString_def round_def)
qed

lemma valueInt_small:
  assumes "js_mul parsed (Fin 100) = Fin pr" and "0 \<le> pr" and "round pr < 2 ^ 53"
  shows "valueInt parsed = digits_of (nat (round pr))"
proof -
  from assms(2) have r0: "0 \<le> round pr" by (simp add: round_def)
  with assms(3) have n: "nat (round pr) < 2 ^ 53" by (simp add: nat_less_iff)
  have "(2 :: int) ^ 53 < 10 ^ 21" by simp
  with assms(3) have "round pr < 10 ^ 21" by linarith
  from valueInt_digits [OF assms(1,2) this] shortest_small [OF n] show ?thesis by simp
qed

lemma valueInt_large:
  assumes "js_mul parsed (Fin 100) = Fin pr" and "10 ^ 21 \<le> round pr"
  shows "valueInt parsed = exponential (nat (round pr))"
proof -
  have "(0 :: int) \<le> 10 ^ 21" by simp
  with assms(2) have "0 \<le> round pr" by linarith
  moreover from assms(2) this have "\<not> nat (round pr) < 10 ^ 21"
    by (simp add: nat_less_iff)
  ultimately show ?thesis using assms(1)
    by (simp add: valueInt_def assetScale_def magnitude_toString_def round_def)
qed

lemma exponential_has_exponent: "CHR ''e'' \<in> set (exponential N)"
  by (simp add: exponential_def Let_def)

lemma valueInt_5: "valueInt (Fin 5) = ''500''"
proof -
  have "js_mul (Fin 5) (Fin 100) = Fin 500" by (simp add: fl_500)
  from valueInt_small [OF this] show ?thesis
    by (simp add: round_def floor_numeral_div digits_of_numeral digits_of_small)
qed

section \<open>The outcomes of a creation\<close>

text \<open>
  A creation that sent a request passed both validations, and sent exactly one; a
  creation that stored a record, or replied with success, received a response and
  appended exactly one row. Conversely these conditions lead to the success reply.
\<close>

lemma Number_Inr: "Number v = Inr n \<longleftrightarrow> \<not> unprintable v \<and> n = ToNumber v"
  by (auto simp: Number_def)

lemma Number_Inl: "Number v = Inl x \<longleftrightarrow> unprintable v \<and> x = TypeError"
  by (auto simp: Number_def)

lemma create_payment_sent:
  assumes run: "create_payment cfg fx body d = (rep, d', reqs)"
      and sent: "reqs \<noteq> []"
  shows "\<exists>p ex.
           \<not> nullish body
           \<and> truthy (get_prop body ''amount'')
           \<and> get_prop body ''payee'' = JStr p \<and> p \<noteq> []
           \<and> \<not> unprintable (get_prop body ''amount'')
           \<and> \<not> isNaN (ToNumber (get_prop body ''amount''))
           \<and> \<not> js_le (ToNumber (get_prop body ''amount'')) (Fin 0)
           \<and> \<not> memo_throws body
           \<and> expiry (Date_now fx) (get_prop body ''expiresInSeconds'') = Inr ex
           \<and> reqs = [incoming_payment_request cfg p
                        (build_payload fx body (ToNumber (get_prop body ''amount'')) p ex)]"
  using run sent
  by (auto simp: create_payment_def Let_def callApi_def fails_def rejected_def Number_def
        incoming_payment_request_def
      split: if_splits sum.splits jsval.splits fetch_result.splits)

lemma create_payment_stored:
  assumes run: "create_payment cfg fx body d = (rep, d', reqs)"
      and stored: "success rep \<or> d' \<noteq> d"
  shows "\<exists>p ex r.
           \<not> nullish body
           \<and> truthy (get_prop body ''amount'')
           \<and> get_prop body ''payee'' = JStr p \<and> p \<noteq> []
           \<and> \<not> unprintable (get_prop body ''amount'')
           \<and> \<not> isNaN (ToNumber (get_prop body ''amount''))
           \<and> \<not> js_le (ToNumber (get_prop body ''amount'')) (Fin 0)
           \<and> \<not> memo_throws body
           \<and> expiry (Date_now fx) (get_prop body ''expiresInSeconds'') = Inr ex
           \<and> reqs = [incoming_payment_request cfg p
                        (build_payload fx body (ToNumber (get_prop body ''amount'')) p ex)]
           \<and> fetch fx (incoming_payment_request cfg p
                         (build_payload fx body (ToNumber (get_prop body ''amount'')) p ex))
               = Resolves r
           \<and> bindable (currency_of body) \<and> bindable (extract_resource_url (op_of r))
           \<and> snd (randomUUID fx) \<notin> set (map p_id d)
           \<and> d' = d @ [build_row fx body (ToNumber (get_prop body ''amount'')) p (op_of r)]
           \<and> rep = \<lparr>http_status = 200,
                     content = CreatedBody (fst (randomUUID fx)) (snd (randomUUID fx))
                                 (extract_resource_url (op_of r)) (op_of r)\<rparr>"
  using run stored
  by (auto simp: create_payment_def Let_def callApi_def fails_def rejected_def success_def
        incoming_payment_request_def insert_payment_def build_row_def build_payload_def
        Number_def
      split: if_splits sum.splits jsval.splits fetch_result.splits)

lemma create_payment_accepts:
  assumes "\<not> nullish body"
      and "truthy (get_prop body ''amount'')"
      and "get_prop body ''payee'' = JStr p" and "p \<noteq> []"
      and "\<not> unprintable (get_prop body ''amount'')"
      and "\<not> isNaN (ToNumber (get_prop body ''amount''))"
      and "\<not> js_le (ToNumber (get_prop body ''amount'')) (Fin 0)"
      and "\<not> memo_throws body"
      and "expiry (Date_now fx) (get_prop body ''expiresInSeconds'') = Inr ex"
      and "fetch fx (incoming_payment_request cfg p
                      (build_payload fx body (ToNumber (get_prop body ''amount'')) p ex))
             = Resolves r"
      and "bindable (currency_of body)" and "bindable (extract_resource_url (op_of r))"
      and "snd (randomUUID fx) \<notin> set (map p_id d)"
  shows "create_payment cfg fx body d =
           (\<lparr>http_status = 200,
             content = CreatedBody (fst (randomUUID fx)) (snd (randomUUID fx))
                                 (extract_resource_url (op_of r)) (op_of r)\<rparr>,
            d @ [build_row fx body (ToNumber (get_prop body ''amount'')) p (op_of r)],
            [incoming_payment_request cfg p
               (build_payload fx body (ToNumber (get_prop body ''amount'')) p ex)])"
  using assms
  by (auto simp: create_payment_def Let_def callApi_def fails_def rejected_def success_def
        incoming_payment_request_def insert_payment_def build_row_def build_payload_def
        Number_def)

text \<open>The scenario of the specification, \<^verbatim>\<open>amount = 5.00\<close>, against each remote side.\<close>

lemmas scenario_simps =
  create_payment_def Let_def callApi_def pay_def nullish_def isNaN_def expiry_def merchant_def
  remote_def insert_payment_def example_row_def other_row_def build_payload_def
  currency_of_def assetScale_def strip_trailing_slashes_def example_config_def
  scenario_request_def scenario_row_def Number_def memo_throws_def

lemma scenario:
  "bindable (extract_resource_url (op_of r)) \<Longrightarrow>
   create_payment example_config (remote r) (pay (JStr ''5.00'')) [example_row, other_row] =
     (\<lparr>http_status = 200,
       content = CreatedBody ''uuid-1'' ''uuid-2'' (extract_resource_url (op_of r)) (op_of r)\<rparr>,
      [example_row, other_row,
       scenario_row (Fin 5) (statusText (op_of r)) (extract_resource_url (op_of r)) r],
      [scenario_request ''5.00'' ''500''])"
  by (simp add: scenario_simps Number_5_00 valueInt_5)

lemma scenario_created_201:
  "create_payment example_config (remote created_201) (pay (JStr ''5.00'')) [example_row, other_row] =
     (\<lparr>http_status = 200,
       content = CreatedBody ''uuid-1'' ''uuid-2'' (JStr resource) (op_of created_201)\<rparr>,
      [example_row, other_row, scenario_row (Fin 5) ''created'' (JStr resource) created_201],
      [scenario_request ''5.00'' ''500''])"
proof -
  have "extract_resource_url (op_of created_201) = JStr resource"
    by (simp add: extract_resource_url_eq op_of_json created_201_def resource_def)
  with scenario [of created_201] show ?thesis
    by (simp add: statusText_def) (simp add: created_201_def)
qed


lemma scenario_located_201:
  "create_payment example_config (remote located_201) (pay (JStr ''5.00'')) [example_row, other_row] =
     (\<lparr>http_status = 200,
       content = CreatedBody ''uuid-1'' ''uuid-2'' JNull (op_of located_201)\<rparr>,
      [example_row, other_row, scenario_row (Fin 5) ''created'' JNull located_201],
      [scenario_request ''5.00'' ''500''])"
proof -
  have "extract_resource_url (op_of located_201) = JNull"
    by (simp add: extract_resource_url_eq op_of_json located_201_def)
  with scenario [of located_201] show ?thesis
    by (simp add: statusText_def) (simp add: located_201_def)
qed

section \<open>The webhook path\<close>

text \<open>
  C7. A webhook payload in which none of \<^verbatim>\<open>payload.data.metadata.localId\<close>,
  \<^verbatim>\<open>payload.metadata.localId\<close> and \<^verbatim>\<open>payload.metadata.local_id\<close> is present and truthy
  is answered with status 200 and the text \<^verbatim>\<open>ok\<close>, and the table is left exactly as
  it was.
\<close>

theorem webhook_without_localId:
  assumes "\<not> truthy (path payload [''data'', ''metadata'', ''localId''])"
      and "\<not> truthy (path payload [''metadata'', ''localId''])"
      and "\<not> truthy (path payload [''metadata'', ''local_id''])"
  shows "webhook payload d = (\<lparr>http_status = 200, content = TextBody ''ok''\<rparr>, d)"
  using assms by (simp add: webhook_def webhook_localId_def js_or_def)

theorem webhook_without_localId_witness:
  "\<not> truthy (path (JObj [(''id'', JStr ''evt-1''), (''metadata'', JObj [(''localId'', JStr [])])])
                [''data'', ''metadata'', ''localId''])
   \<and> \<not> truthy (path (JObj [(''id'', JStr ''evt-1''), (''metadata'', JObj [(''localId'', JStr [])])])
                  [''metadata'', ''localId''])
   \<and> \<not> truthy (path (JObj [(''id'', JStr ''evt-1''), (''metadata'', JObj [(''localId'', JStr [])])])
                  [''metadata'', ''local_id''])
   \<and> webhook (JObj [(''id'', JStr ''evt-1''), (''metadata'', JObj [(''localId'', JStr [])])])
             [example_row, other_row]
       = (\<lparr>http_status = 200, content = TextBody ''ok''\<rparr>, [example_row, other_row])"
  using webhook_without_localId
          [of "JObj [(''id'', JStr ''evt-1''), (''metadata'', JObj [(''localId'', JStr [])])]"
              "[example_row, other_row]"]
  by (simp add: path_simps)

text \<open>
  C1 (as stated, refuted). The claim says that no later update sets a record's
  \<^verbatim>\<open>resource_url\<close> back to null, and that a webhook with a matching \<^verbatim>\<open>localId\<close> but no
  \<^verbatim>\<open>data.id\<close> or \<^verbatim>\<open>id\<close> leaves it unchanged. Here the first record has a resource
  URL, the webhook matches its \<^verbatim>\<open>localId\<close> and carries no id, and afterwards the
  record's \<^verbatim>\<open>resource_url\<close> is null.
\<close>

theorem webhook_resets_resource_url:
  "p_resource_url example_row = SqlText resource
   \<and> p_local_id example_row = ''L1''
   \<and> map p_resource_url
         (snd (webhook (JObj [(''metadata'', JObj [(''localId'', JStr ''L1'')]),
                              (''status'', JStr ''completed'')])
                       [example_row, other_row]))
       = [SqlNull, SqlNull]"
  by (simp add: webhook_def webhook_localId_def webhook_status_def webhook_resource_url_def
        js_or_def path_simps logged_update_webhook example_row_def other_row_def)

text \<open>
  C1 (amended). The poll path never changes the \<^verbatim>\<open>resource_url\<close> of any record. On the
  webhook path the value bound to \<^verbatim>\<open>resource_url\<close> is \<^verbatim>\<open>payload.data.id\<close>, else
  \<^verbatim>\<open>payload.id\<close>, when one of them is truthy, and null otherwise. When the \<^verbatim>\<open>localId\<close>
  extracted is a string or none, and the status and that value are each a string, a
  number or null, the webhook sets the \<^verbatim>\<open>resource_url\<close> of every record whose
  \<^verbatim>\<open>local_id\<close> is the \<^verbatim>\<open>localId\<close> to the value bound, and every other record keeps its
  \<^verbatim>\<open>resource_url\<close>; so a \<^verbatim>\<open>resource_url\<close> that is set is not overwritten with null by
  a webhook that carries an id. When one of the three is a boolean or an object (and
  none is an array), the update throws inside the inner \<^verbatim>\<open>try\<close> and the table is left
  as it was.
\<close>

theorem resource_url_after_update:
  "map p_resource_url (fst (snd (get_status cfg fx raw d))) = map p_resource_url d
   \<and> webhook_resource_url payload =
       (if truthy (path payload [''data'', ''id'']) then path payload [''data'', ''id'']
        else if truthy (path payload [''id'']) then path payload [''id'']
        else JNull)
   \<and> ((webhook_localId payload = JNull \<or> is_string (webhook_localId payload))
        \<and> bindable (webhook_status payload) \<and> bindable (webhook_resource_url payload)
        \<longrightarrow> map p_resource_url (snd (webhook payload d)) =
              map (\<lambda>p. if p_local_id p \<noteq> [] \<and> webhook_localId payload = JStr (p_local_id p)
                        then bound (webhook_resource_url payload)
                        else p_resource_url p) d
            \<and> (truthy (webhook_resource_url payload)
                 \<longrightarrow> (\<forall>i < length d. p_resource_url (d ! i) \<noteq> SqlNull
                                         \<longrightarrow> p_resource_url (snd (webhook payload d) ! i) \<noteq> SqlNull)))
   \<and> ((refused (webhook_localId payload) \<or> refused (webhook_status payload)
         \<or> refused (webhook_resource_url payload))
        \<and> \<not> is_array (webhook_localId payload) \<and> \<not> is_array (webhook_status payload)
        \<and> \<not> is_array (webhook_resource_url payload)
        \<longrightarrow> snd (webhook payload d) = d)"
proof -
  let ?l = "webhook_localId payload"
  let ?s = "webhook_status payload"
  let ?u = "webhook_resource_url payload"
  have poll: "map p_resource_url (fst (snd (get_status cfg fx raw d))) = map p_resource_url d"
    by (auto simp add: get_status_def callApi_def Let_def update_status_frame
          split: fetch_result.splits sum.splits prod.splits)
  have hook: "map p_resource_url (snd (webhook payload d)) =
                map (\<lambda>p. if p_local_id p \<noteq> [] \<and> ?l = JStr (p_local_id p) then bound ?u
                          else p_resource_url p) d"
    if b: "bindable ?l" "bindable ?s" "bindable ?u"
  proof (cases "truthy ?l")
    case True
    have "(bindable ?s \<and> bindable ?u \<and> bindable ?l \<and> matches (bound ?l) p)
            = (p_local_id p \<noteq> [] \<and> ?l = JStr (p_local_id p))" for p :: payment
      using True b matches_bound [OF True b(1), of p] by auto
    with True show ?thesis
      by (simp add: webhook_def Let_def update_webhook_resource_url)
  next
    case False
    then have "\<not> (p_local_id p \<noteq> [] \<and> ?l = JStr (p_local_id p))" for p :: payment
      by auto
    with False show ?thesis
      by (auto simp: webhook_def Let_def)
  qed
  have len: "length (snd (webhook payload d)) = length d"
    by (simp add: webhook_def Let_def update_webhook_length)
  have keep: "p_resource_url (snd (webhook payload d) ! i) \<noteq> SqlNull"
    if b: "bindable ?l" "bindable ?s" "bindable ?u" and id: "truthy ?u"
    and i: "i < length d" and set: "p_resource_url (d ! i) \<noteq> SqlNull" for i
  proof -
    from i len have "p_resource_url (snd (webhook payload d) ! i)
                       = map p_resource_url (snd (webhook payload d)) ! i"
      by simp
    also from i have "\<dots> =
         (if p_local_id (d ! i) \<noteq> [] \<and> ?l = JStr (p_local_id (d ! i)) then bound ?u
          else p_resource_url (d ! i))"
      by (simp only: hook [OF b] nth_map)
    finally show ?thesis using set bound_truthy [OF id b(3)] by auto
  qed
  have thrown: "snd (webhook payload d) = d"
    if "refused ?l \<or> refused ?s \<or> refused ?u"
  proof -
    from that refused_not_bindable
    have "\<not> bindable ?s \<or> \<not> bindable ?u \<or> \<not> bindable ?l" by blast
    then show ?thesis
      by (auto simp: webhook_def Let_def logged_update_webhook)
  qed
  have str: "bindable ?l" if "?l = JNull \<or> is_string ?l"
    using that by (cases ?l) auto
  from poll webhook_resource_url_eq [of payload] hook keep thrown str show ?thesis by blast
qed

theorem resource_url_after_update_witness:
  "map p_resource_url
     (fst (snd (get_status example_config (remote polled) ''incoming-payments/abc''
                  [example_row, other_row])))
     = [SqlText resource, SqlNull]
   \<and> is_string (webhook_localId
                   (JObj [(''data'', JObj [(''id'', JStr ''https://wallet.example/new''),
                                           (''metadata'', JObj [(''localId'', JStr ''L2'')])])]))
   \<and> bindable (webhook_status
                  (JObj [(''data'', JObj [(''id'', JStr ''https://wallet.example/new''),
                                          (''metadata'', JObj [(''localId'', JStr ''L2'')])])]))
   \<and> bindable (webhook_resource_url
                  (JObj [(''data'', JObj [(''id'', JStr ''https://wallet.example/new''),
                                          (''metadata'', JObj [(''localId'', JStr ''L2'')])])]))
   \<and> truthy (webhook_resource_url
                (JObj [(''data'', JObj [(''id'', JStr ''https://wallet.example/new''),
                                        (''metadata'', JObj [(''localId'', JStr ''L2'')])])]))
   \<and> map p_resource_url
         (snd (webhook (JObj [(''data'', JObj [(''id'', JStr ''https://wallet.example/new''),
                                                (''metadata'', JObj [(''localId'', JStr ''L2'')])])])
                       [example_row, other_row]))
       = [SqlText resource, SqlText ''https://wallet.example/new'']
   \<and> refused (webhook_status
                 (JObj [(''id'', JStr ''https://wallet.example/new''),
                        (''status'', JObj [(''state'', JStr ''done'')]),
                        (''metadata'', JObj [(''localId'', JStr ''L1'')])]))
   \<and> snd (webhook (JObj [(''id'', JStr ''https://wallet.example/new''),
                          (''status'', JObj [(''state'', JStr ''done'')]),
                          (''metadata'', JObj [(''localId'', JStr ''L1'')])])
                   [example_row, other_row])
       = [example_row, other_row]"
  using resource_url_after_update
          [of example_config "remote polled" "''incoming-payments/abc''" "[example_row, other_row]"
              "JObj [(''data'', JObj [(''id'', JStr ''https://wallet.example/new''),
                                      (''metadata'', JObj [(''localId'', JStr ''L2'')])])]"]
        resource_url_after_update
          [of example_config "remote polled" "''incoming-payments/abc''" "[example_row, other_row]"
              "JObj [(''id'', JStr ''https://wallet.example/new''),
                     (''status'', JObj [(''state'', JStr ''done'')]),
                     (''metadata'', JObj [(''localId'', JStr ''L1'')])]"]
  by (simp add: webhook_localId_def webhook_status_def webhook_resource_url_def js_or_def
        path_simps example_row_def other_row_def)

section \<open>The poll path\<close>

text \<open>
  C6 (as stated, refuted). The claim extracts the status \<^verbatim>\<open>received\<close> whenever a
  \<^verbatim>\<open>receiveAmount\<close> field is present, and updates the record when a
  \<^verbatim>\<open>metadata.localId\<close> and a status were extracted. Here the body has the field
  \<^verbatim>\<open>receiveAmount\<close> with the value \<open>0\<close>, no \<^verbatim>\<open>status\<close>, and the \<^verbatim>\<open>localId\<close> of the
  first record: the handler tests the field for truthiness, extracts no status and
  leaves the record as it was.
\<close>

theorem falsy_receiveAmount_gives_no_status:
  "r_body polled_zero = Parsed (JObj [(''receiveAmount'', JNum (Fin 0)),
                                      (''metadata'', JObj [(''localId'', JStr ''L1'')])])
   \<and> get_prop (op_json (op_of polled_zero)) ''receiveAmount'' = JNum (Fin 0)
   \<and> get_prop (op_json (op_of polled_zero)) ''status'' = JUndefined
   \<and> poll_localId (op_of polled_zero) = JStr ''L1''
   \<and> p_local_id example_row = ''L1''
   \<and> poll_status (op_of polled_zero) = JNull
   \<and> get_status example_config (remote polled_zero) ''incoming-payments/abc''
         [example_row, other_row]
       = (\<lparr>http_status = 200, content = StatusBody (op_of polled_zero)\<rparr>,
          [example_row, other_row],
          [\<lparr>rq_url = ''https://wallet.example/incoming-payments/abc'', rq_method = ''GET'',
            rq_authorization = ''Bearer TEST_KEY'', rq_body = None\<rparr>])"
  by (simp add: get_status_def callApi_def Let_def remote_def polled_zero_def op_of_def
        example_config_def status_url_def strip_trailing_slashes_def strip_leading_slashes_def
        poll_localId_def poll_status_def js_or_def path_simps example_row_def)

text \<open>
  C6 (amended). On the poll path, for every fetched remote response: the extracted
  status is the JSON body's \<^verbatim>\<open>status\<close> field when that is truthy, else the literal
  \<^verbatim>\<open>received\<close> when the body has a truthy \<^verbatim>\<open>receiveAmount\<close> field, else null, and the
  extracted \<^verbatim>\<open>localId\<close> is the body's \<^verbatim>\<open>metadata.localId\<close> when truthy, else null. The
  table changes only when both were extracted. Every record keeps its \<^verbatim>\<open>id\<close>,
  \<^verbatim>\<open>local_id\<close>, \<^verbatim>\<open>amount\<close>, \<^verbatim>\<open>currency\<close>, \<^verbatim>\<open>payee\<close>, \<^verbatim>\<open>resource_url\<close> and
  \<^verbatim>\<open>created_at\<close>. When the \<^verbatim>\<open>localId\<close> is a string, a record with another \<^verbatim>\<open>local_id\<close>
  keeps all its fields, and when the status is a string or a number, each record with
  that \<^verbatim>\<open>local_id\<close> gets the extracted status as its \<^verbatim>\<open>status\<close> and the response as
  its \<^verbatim>\<open>op_response\<close>. When the \<^verbatim>\<open>localId\<close> or the status is a boolean or an object
  (and neither is an array), the update throws inside the inner \<^verbatim>\<open>try\<close> and the
  table is left as it was. In every case the reply is \<^verbatim>\<open>{success: true, op}\<close>,
  where \<^verbatim>\<open>op\<close> has the status code and the headers of the response and its body: the
  parsed JSON, or the raw text when it did not parse.
\<close>

theorem poll_updates_only_status_and_response:
  assumes "raw \<noteq> []"
      and "fetch fx \<lparr>rq_url = status_url cfg raw, rq_method = ''GET'',
                     rq_authorization = ''Bearer '' @ OPEN_PAYMENTS_API_KEY cfg,
                     rq_body = None\<rparr> = Resolves r"
      and "get_status cfg fx raw d = (rep, d', reqs)"
  shows "poll_status (op_of r) =
           (if truthy (op_json (op_of r)) \<and> truthy (get_prop (op_json (op_of r)) ''status'')
            then get_prop (op_json (op_of r)) ''status''
            else if truthy (op_json (op_of r))
                    \<and> truthy (get_prop (op_json (op_of r)) ''receiveAmount'')
            then JStr ''received''
            else JNull)
         \<and> poll_localId (op_of r) =
           (if truthy (op_json (op_of r)) \<and> truthy (path (op_json (op_of r)) [''metadata'', ''localId''])
            then path (op_json (op_of r)) [''metadata'', ''localId'']
            else JNull)
         \<and> rep = \<lparr>http_status = 200, content = StatusBody (op_of r)\<rparr>
         \<and> success rep
         \<and> op_status (op_of r) = r_status r
         \<and> op_headers (op_of r) = r_headers r
         \<and> (case r_body r of
               Parsed j \<Rightarrow> op_json (op_of r) = j \<and> op_text (op_of r) = None
             | Unparsable t \<Rightarrow> op_json (op_of r) = JUndefined \<and> op_text (op_of r) = Some t)
         \<and> (d' \<noteq> d \<longrightarrow> truthy (poll_localId (op_of r)) \<and> truthy (poll_status (op_of r)))
         \<and> ((refused (poll_localId (op_of r)) \<or> refused (poll_status (op_of r)))
              \<and> \<not> is_array (poll_localId (op_of r)) \<and> \<not> is_array (poll_status (op_of r))
              \<longrightarrow> d' = d)
         \<and> length d' = length d
         \<and> (\<forall>i < length d.
               p_id (d' ! i) = p_id (d ! i) \<and> p_local_id (d' ! i) = p_local_id (d ! i)
               \<and> p_amount (d' ! i) = p_amount (d ! i) \<and> p_currency (d' ! i) = p_currency (d ! i)
               \<and> p_payee (d' ! i) = p_payee (d ! i)
               \<and> p_resource_url (d' ! i) = p_resource_url (d ! i)
               \<and> p_created_at (d' ! i) = p_created_at (d ! i)
               \<and> (is_string (poll_localId (op_of r))
                    \<and> poll_localId (op_of r) \<noteq> JStr (p_local_id (d ! i))
                    \<longrightarrow> d' ! i = d ! i)
               \<and> (p_local_id (d ! i) \<noteq> [] \<and> poll_localId (op_of r) = JStr (p_local_id (d ! i))
                    \<and> truthy (poll_status (op_of r))
                    \<and> ((\<exists>s. poll_status (op_of r) = JStr s) \<or> (\<exists>n. poll_status (op_of r) = JNum n))
                    \<longrightarrow> d' ! i = (d ! i)\<lparr>p_status := bound (poll_status (op_of r)),
                                            p_op_response := OpBlob (op_of r)\<rparr>))"
proof -
  let ?op = "op_of r"
  let ?l = "poll_localId ?op"
  let ?s = "poll_status ?op"
  let ?upd = "truthy ?l \<and> truthy ?s"
  from assms have rep: "rep = \<lparr>http_status = 200, content = StatusBody ?op\<rparr>"
    and d': "d' = (if ?upd then logged d (update_status ?s (OpBlob ?op) ?l d) else d)"
    by (auto simp: get_status_def callApi_def Let_def)
  have ok: "success rep"
    by (simp add: rep success_def)
  have body: "case r_body r of
                Parsed j \<Rightarrow> op_json ?op = j \<and> op_text ?op = None
              | Unparsable t \<Rightarrow> op_json ?op = JUndefined \<and> op_text ?op = Some t"
    by (simp add: op_of_def split: body.splits)
  have only: "d' \<noteq> d \<longrightarrow> ?upd"
    by (simp add: d')
  have thrown: "(refused ?l \<or> refused ?s) \<and> \<not> is_array ?l \<and> \<not> is_array ?s \<longrightarrow> d' = d"
    using refused_not_bindable [of ?l] refused_not_bindable [of ?s]
    by (auto simp: d' logged_update_status)
  have len: "length d' = length d"
    by (simp add: d' update_status_length)
  have nth: "d' ! i = (if ?upd \<and> bindable ?s \<and> bindable ?l \<and> matches (bound ?l) (d ! i)
                       then (d ! i)\<lparr>p_status := bound ?s, p_op_response := OpBlob ?op\<rparr>
                       else d ! i)" if "i < length d" for i
    using that by (simp add: d' update_status_nth)
  have other: "d' ! i = d ! i"
    if i: "i < length d" and "?l \<noteq> JStr (p_local_id (d ! i))" for i
  proof (cases "?upd \<and> bindable ?l")
    case True
    with that matches_bound [of ?l "d ! i"] have "\<not> matches (bound ?l) (d ! i)" by simp
    with nth [OF i] show ?thesis by simp
  next
    case False
    with nth [OF i] show ?thesis by auto
  qed
  have same: "d' ! i = (d ! i)\<lparr>p_status := bound ?s, p_op_response := OpBlob ?op\<rparr>"
    if i: "i < length d" and ne: "p_local_id (d ! i) \<noteq> []"
    and l: "?l = JStr (p_local_id (d ! i))" and s: "truthy ?s"
    and b: "(\<exists>s. ?s = JStr s) \<or> (\<exists>n. ?s = JNum n)" for i
  proof -
    from l ne have tl: "truthy ?l" and bl: "bindable ?l" by simp_all
    from b have bs: "bindable ?s" by auto
    from matches_bound [OF tl bl, of "d ! i"] l have "matches (bound ?l) (d ! i)" by simp
    with nth [OF i] tl s bl bs show ?thesis by simp
  qed
  have rows: "\<forall>i < length d.
               p_id (d' ! i) = p_id (d ! i) \<and> p_local_id (d' ! i) = p_local_id (d ! i)
               \<and> p_amount (d' ! i) = p_amount (d ! i) \<and> p_currency (d' ! i) = p_currency (d ! i)
               \<and> p_payee (d' ! i) = p_payee (d ! i)
               \<and> p_resource_url (d' ! i) = p_resource_url (d ! i)
               \<and> p_created_at (d' ! i) = p_created_at (d ! i)
               \<and> (is_string ?l \<and> ?l \<noteq> JStr (p_local_id (d ! i)) \<longrightarrow> d' ! i = d ! i)
               \<and> (p_local_id (d ! i) \<noteq> [] \<and> ?l = JStr (p_local_id (d ! i)) \<and> truthy ?s
                    \<and> ((\<exists>s. ?s = JStr s) \<or> (\<exists>n. ?s = JNum n))
                    \<longrightarrow> d' ! i = (d ! i)\<lparr>p_status := bound ?s, p_op_response := OpBlob ?op\<rparr>)"
  proof (intro allI impI)
    fix i assume i: "i < length d"
    have "p_id (d' ! i) = p_id (d ! i) \<and> p_local_id (d' ! i) = p_local_id (d ! i)
          \<and> p_amount (d' ! i) = p_amount (d ! i) \<and> p_currency (d' ! i) = p_currency (d ! i)
          \<and> p_payee (d' ! i) = p_payee (d ! i)
          \<and> p_resource_url (d' ! i) = p_resource_url (d ! i)
          \<and> p_created_at (d' ! i) = p_created_at (d ! i)"
      using nth [OF i] by simp
    with other [OF i] same [OF i]
    show "p_id (d' ! i) = p_id (d ! i) \<and> p_local_id (d' ! i) = p_local_id (d ! i)
          \<and> p_amount (d' ! i) = p_amount (d ! i) \<and> p_currency (d' ! i) = p_currency (d ! i)
          \<and> p_payee (d' ! i) = p_payee (d ! i)
          \<and> p_resource_url (d' ! i) = p_resource_url (d ! i)
          \<and> p_created_at (d' ! i) = p_created_at (d ! i)
          \<and> (is_string ?l \<and> ?l \<noteq> JStr (p_local_id (d ! i)) \<longrightarrow> d' ! i = d ! i)
          \<and> (p_local_id (d ! i) \<noteq> [] \<and> ?l = JStr (p_local_id (d ! i)) \<and> truthy ?s
               \<and> ((\<exists>s. ?s = JStr s) \<or> (\<exists>n. ?s = JNum n))
               \<longrightarrow> d' ! i = (d ! i)\<lparr>p_status := bound ?s, p_op_response := OpBlob ?op\<rparr>)"
      by blast
  qed
  have st: "op_status ?op = r_status r" and hd: "op_headers ?op = r_headers r" by simp_all
  from poll_status_eq [of ?op] poll_localId_eq [of ?op] rep ok st hd body only thrown len rows
  show ?thesis
    apply (intro conjI)
    apply assumption+
    done
qed

theorem poll_updates_only_status_and_response_witness:
  "''incoming-payments/abc'' \<noteq> []
   \<and> fetch (remote polled)
        \<lparr>rq_url = status_url example_config ''incoming-payments/abc'', rq_method = ''GET'',
         rq_authorization = ''Bearer '' @ OPEN_PAYMENTS_API_KEY example_config,
         rq_body = None\<rparr> = Resolves polled
   \<and> get_status example_config (remote polled) ''incoming-payments/abc'' [example_row, other_row]
       = (\<lparr>http_status = 200, content = StatusBody (op_of polled)\<rparr>,
          [example_row\<lparr>p_status := SqlText ''completed'', p_op_response := OpBlob (op_of polled)\<rparr>,
           other_row],
          [\<lparr>rq_url = ''https://wallet.example/incoming-payments/abc'', rq_method = ''GET'',
            rq_authorization = ''Bearer TEST_KEY'', rq_body = None\<rparr>])
   \<and> poll_status (op_of polled) = JStr ''completed''
   \<and> poll_localId (op_of polled) = JStr ''L1''
   \<and> p_local_id example_row = ''L1''
   \<and> op_json (op_of polled)
       = JObj [(''id'', JStr resource), (''status'', JStr ''completed''),
               (''receiveAmount'', JObj [(''value'', JStr ''500'')]),
               (''metadata'', JObj [(''localId'', JStr ''L1'')])]"
proof -
  have f: "fetch (remote polled)
             \<lparr>rq_url = status_url example_config ''incoming-payments/abc'', rq_method = ''GET'',
              rq_authorization = ''Bearer '' @ OPEN_PAYMENTS_API_KEY example_config,
              rq_body = None\<rparr> = Resolves polled"
    by (simp add: remote_def)
  have g: "get_status example_config (remote polled) ''incoming-payments/abc''
             [example_row, other_row]
       = (\<lparr>http_status = 200, content = StatusBody (op_of polled)\<rparr>,
          [example_row\<lparr>p_status := SqlText ''completed'', p_op_response := OpBlob (op_of polled)\<rparr>,
           other_row],
          [\<lparr>rq_url = ''https://wallet.example/incoming-payments/abc'', rq_method = ''GET'',
            rq_authorization = ''Bearer TEST_KEY'', rq_body = None\<rparr>])"
    by (simp add: get_status_def callApi_def Let_def remote_def polled_def op_of_def
          example_config_def status_url_def strip_trailing_slashes_def strip_leading_slashes_def
          poll_localId_def poll_status_def js_or_def path_simps logged_update_status
          example_row_def other_row_def)
  from poll_updates_only_status_and_response [OF _ f g] f g show ?thesis
    by (simp add: polled_def op_of_def path_simps example_row_def)
qed

section \<open>Validation of a creation\<close>

text \<open>
  C10. With a payee present and an amount that is the number 0, or any other falsy
  value such as the empty string, the request is rejected by the presence check with
  \<^verbatim>\<open>amount and payee required\<close> (status 400), not with \<^verbatim>\<open>invalid amount\<close>: the
  presence test is a falsiness test, so a zero amount never reaches the numeric check.
\<close>

theorem falsy_amount_fails_presence_check:
  assumes "\<not> nullish body"
      and "get_prop body ''amount'' = JNum (Fin 0) \<or> \<not> truthy (get_prop body ''amount'')"
  shows "create_payment cfg fx body d =
           (\<lparr>http_status = 400, content = ErrorBody ''amount and payee required''\<rparr>, d, [])"
  using assms by (auto simp: create_payment_def Let_def rejected_def)

theorem falsy_amount_fails_presence_check_witness:
  "\<not> nullish (pay (JNum (Fin 0)))
   \<and> get_prop (pay (JNum (Fin 0))) ''amount'' = JNum (Fin 0)
   \<and> truthy (get_prop (pay (JNum (Fin 0))) ''payee'')
   \<and> js_le (ToNumber (JNum (Fin 0))) (Fin 0)
   \<and> create_payment example_config (remote created_201) (pay (JNum (Fin 0)))
         [example_row, other_row]
       = (\<lparr>http_status = 400, content = ErrorBody ''amount and payee required''\<rparr>,
          [example_row, other_row], [])
   \<and> \<not> truthy (get_prop (pay (JStr [])) ''amount'')
   \<and> create_payment example_config (remote created_201) (pay (JStr []))
         [example_row, other_row]
       = (\<lparr>http_status = 400, content = ErrorBody ''amount and payee required''\<rparr>,
          [example_row, other_row], [])"
  using falsy_amount_fails_presence_check
          [of "pay (JNum (Fin 0))" example_config "remote created_201" "[example_row, other_row]"]
        falsy_amount_fails_presence_check
          [of "pay (JStr [])" example_config "remote created_201" "[example_row, other_row]"]
  by (simp add: pay_def nullish_def merchant_def)

text \<open>
  C4. The claim is that every request that fails validation (amount missing, payee
  missing, an amount that is not a number, or an amount at most 0) is answered with a
  validation error and has no effect. The handler does so when the amount or the payee
  is missing or falsy and when \<^verbatim>\<open>Number(amount)\<close> returns \<^verbatim>\<open>NaN\<close> or a number at most
  \<open>0\<close>: the reply has status 400 and \<^verbatim>\<open>success: false\<close>, the table is exactly as
  before and no outbound request is made. It misses the amounts on which
  \<^verbatim>\<open>Number(amount)\<close> throws, an object with an own property \<^verbatim>\<open>toString\<close> or an array
  that holds one: such an amount, which is not a number either, is answered through the
  \<^verbatim>\<open>catch\<close> with status 500 and the text of the TypeError; the table and the remote
  side are untouched there as well.
\<close>

theorem validation_failure_has_no_effect:
  assumes "\<not> nullish body"
      and "\<not> truthy (get_prop body ''amount'') \<or> \<not> truthy (get_prop body ''payee'')
           \<or> unprintable (get_prop body ''amount'')
           \<or> isNaN (ToNumber (get_prop body ''amount''))
           \<or> js_le (ToNumber (get_prop body ''amount'')) (Fin 0)"
  shows "create_payment cfg fx body d =
           (if \<not> truthy (get_prop body ''amount'') \<or> \<not> truthy (get_prop body ''payee'')
            then \<lparr>http_status = 400, content = ErrorBody ''amount and payee required''\<rparr>
            else if unprintable (get_prop body ''amount'')
            then \<lparr>http_status = 500, content = ExnBody TypeError\<rparr>
            else \<lparr>http_status = 400, content = ErrorBody ''invalid amount''\<rparr>,
            d, [])"
  using assms by (auto simp: create_payment_def Let_def rejected_def fails_def Number_def)

text \<open>
  The amount \<^verbatim>\<open>{"toString": 1}\<close> is answered with status 500, and the amount
  \<^verbatim>\<open>"abc"\<close> with status 400 and \<^verbatim>\<open>invalid amount\<close>.
\<close>

theorem unconvertible_amount_is_answered_500:
  "\<not> nullish (pay (JObj [(''toString'', JNum (Fin 1))]))
   \<and> truthy (get_prop (pay (JObj [(''toString'', JNum (Fin 1))])) ''amount'')
   \<and> truthy (get_prop (pay (JObj [(''toString'', JNum (Fin 1))])) ''payee'')
   \<and> unprintable (get_prop (pay (JObj [(''toString'', JNum (Fin 1))])) ''amount'')
   \<and> create_payment example_config (remote created_201)
         (pay (JObj [(''toString'', JNum (Fin 1))])) [example_row, other_row]
       = (\<lparr>http_status = 500, content = ExnBody TypeError\<rparr>, [example_row, other_row], [])
   \<and> \<not> nullish (pay (JStr ''abc''))
   \<and> isNaN (ToNumber (get_prop (pay (JStr ''abc'')) ''amount''))
   \<and> create_payment example_config (remote created_201) (pay (JStr ''abc''))
         [example_row, other_row]
       = (\<lparr>http_status = 400, content = ErrorBody ''invalid amount''\<rparr>,
          [example_row, other_row], [])"
  using validation_failure_has_no_effect
          [of "pay (JObj [(''toString'', JNum (Fin 1))])" example_config "remote created_201"
              "[example_row, other_row]"]
        validation_failure_has_no_effect
          [of "pay (JStr ''abc'')" example_config "remote created_201" "[example_row, other_row]"]
  by (simp add: pay_def nullish_def Number_abc isNaN_def merchant_def)

text \<open>
  C2. The claim is that every amount that does not parse to a finite number greater
  than 0, the infinities included, is rejected with \<^verbatim>\<open>invalid amount\<close>. The handler
  tests \<^verbatim>\<open>Number.isNaN(parsed) || parsed <= 0\<close> only: an amount that parses to
  \<^verbatim>\<open>Infinity\<close> is never answered with \<^verbatim>\<open>invalid amount\<close>.
\<close>

theorem infinite_amount_passes_validation:
  assumes "\<not> nullish body"
      and "truthy (get_prop body ''amount'')" and "truthy (get_prop body ''payee'')"
      and "ToNumber (get_prop body ''amount'') = PInf"
  shows "fst (create_payment cfg fx body d)
           \<noteq> \<lparr>http_status = 400, content = ErrorBody ''invalid amount''\<rparr>"
  using assms
  by (auto simp: create_payment_def Let_def callApi_def fails_def isNaN_def Number_def
      split: sum.splits jsval.splits fetch_result.splits prod.splits)

text \<open>
  The amount \<^verbatim>\<open>"Infinity"\<close> parses to \<^verbatim>\<open>Infinity\<close>: the handler posts the value
  \<^verbatim>\<open>Infinity\<close> to the wallet, stores the record and replies with success.
\<close>

theorem infinite_amount_is_accepted:
  "\<not> nullish (pay (JStr ''Infinity''))
   \<and> truthy (get_prop (pay (JStr ''Infinity'')) ''amount'')
   \<and> truthy (get_prop (pay (JStr ''Infinity'')) ''payee'')
   \<and> ToNumber (get_prop (pay (JStr ''Infinity'')) ''amount'') = PInf
   \<and> fst (create_payment example_config (remote created_201) (pay (JStr ''Infinity''))
            [example_row, other_row])
       \<noteq> \<lparr>http_status = 400, content = ErrorBody ''invalid amount''\<rparr>
   \<and> create_payment example_config (remote created_201) (pay (JStr ''Infinity''))
         [example_row, other_row]
       = (\<lparr>http_status = 200,
           content = CreatedBody ''uuid-1'' ''uuid-2'' (JStr resource) (op_of created_201)\<rparr>,
          [example_row, other_row, scenario_row PInf ''created'' (JStr resource) created_201],
          [scenario_request ''Infinity'' ''Infinity''])"
proof -
  have a: "\<not> nullish (pay (JStr ''Infinity''))"
    and b: "truthy (get_prop (pay (JStr ''Infinity'')) ''amount'')"
    and c: "truthy (get_prop (pay (JStr ''Infinity'')) ''payee'')"
    and d: "ToNumber (get_prop (pay (JStr ''Infinity'')) ''amount'') = PInf"
    by (simp_all add: pay_def nullish_def Number_Infinity merchant_def)
  have run: "create_payment example_config (remote created_201) (pay (JStr ''Infinity''))
         [example_row, other_row]
       = (\<lparr>http_status = 200,
           content = CreatedBody ''uuid-1'' ''uuid-2'' (JStr resource) (op_of created_201)\<rparr>,
          [example_row, other_row, scenario_row PInf ''created'' (JStr resource) created_201],
          [scenario_request ''Infinity'' ''Infinity''])"
    by (simp add: scenario_simps Number_Infinity valueInt_PInf extract_resource_url_eq op_of_json
          statusText_def created_201_def resource_def)
  from infinite_amount_passes_validation [OF a b c d] a b c d run show ?thesis
    by blast
qed

section \<open>The record of a creation\<close>



text \<open>
  C3. The claim gives the first value of the \<^verbatim>\<open>Location\<close> header whenever the header is
  present, also when the body was not parsable as JSON. The handler reads the header
  only behind the test \<^verbatim>\<open>op.json && ...\<close>, although the value it then takes,
  \<^verbatim>\<open>op.json?.id || ...\<close>, is written for a result without \<^verbatim>\<open>json\<close>. So, in every
  successful creation, the \<^verbatim>\<open>resource_url\<close> returned is the \<^verbatim>\<open>id\<close> of the JSON body when
  the body parsed to a truthy value with a truthy \<^verbatim>\<open>id\<close>; otherwise the first value of
  the \<^verbatim>\<open>Location\<close> header when the body parsed to a truthy value and that first value
  is a non-empty string; otherwise null: it is null whenever the body was not parsable
  as JSON, whatever the headers. The record stores what the driver binds of the value
  returned: a string as it is, a number as its text, null as \<^verbatim>\<open>NULL\<close>.
\<close>

theorem resource_url_of_creation:
  assumes "create_payment cfg fx body d = (rep, d', reqs)" and "success rep"
  shows "\<exists>l i u rq r row.
           reqs = [rq] \<and> fetch fx rq = Resolves r
           \<and> rep = \<lparr>http_status = 200, content = CreatedBody l i u (op_of r)\<rparr>
           \<and> d' = d @ [row] \<and> (\<not> is_array u \<longrightarrow> p_resource_url row = bound u)
           \<and> u = (case r_body r of
                    Unparsable t \<Rightarrow> JNull
                  | Parsed j \<Rightarrow>
                      if truthy j \<and> truthy (get_prop j ''id'') then get_prop j ''id''
                      else (case map_of (r_headers r) ''location'' of
                              Some (v # vs) \<Rightarrow> if truthy j \<and> v \<noteq> [] then JStr v else JNull
                            | _ \<Rightarrow> JNull))"
proof -
  let ?parsed = "ToNumber (get_prop body ''amount'')"
  from create_payment_stored [OF assms(1)] assms(2) obtain p ex r where
    rq: "reqs = [incoming_payment_request cfg p (build_payload fx body ?parsed p ex)]"
    and f: "fetch fx (incoming_payment_request cfg p (build_payload fx body ?parsed p ex))
              = Resolves r"
    and d': "d' = d @ [build_row fx body ?parsed p (op_of r)]"
    and rep: "rep = \<lparr>http_status = 200,
                     content = CreatedBody (fst (randomUUID fx)) (snd (randomUUID fx))
                                 (extract_resource_url (op_of r)) (op_of r)\<rparr>"
    by blast
  have row: "p_resource_url (build_row fx body ?parsed p (op_of r))
               = bound (extract_resource_url (op_of r))"
    by (simp add: build_row_def)
  have u: "extract_resource_url (op_of r) =
             (case r_body r of
                Unparsable t \<Rightarrow> JNull
              | Parsed j \<Rightarrow>
                  if truthy j \<and> truthy (get_prop j ''id'') then get_prop j ''id''
                  else (case map_of (r_headers r) ''location'' of
                          Some (v # vs) \<Rightarrow> if truthy j \<and> v \<noteq> [] then JStr v else JNull
                        | _ \<Rightarrow> JNull))"
    by (auto simp: extract_resource_url_eq op_of_json location0_def
             split: body.splits option.splits list.splits)
  from rq f d' rep row u show ?thesis by blast
qed

text \<open>
  The remote side answers 201 with a \<^verbatim>\<open>Location\<close> header and an empty body, which
  \<^verbatim>\<open>JSON.parse\<close> rejects: the \<^verbatim>\<open>resource_url\<close> returned and stored is null, not the
  value of the header.
\<close>

theorem location_is_ignored_without_json:
  "map_of (r_headers located_201) ''location'' = Some [resource]
   \<and> r_body located_201 = Unparsable []
   \<and> create_payment example_config (remote located_201) (pay (JStr ''5.00''))
         [example_row, other_row]
       = (\<lparr>http_status = 200,
           content = CreatedBody ''uuid-1'' ''uuid-2'' JNull (op_of located_201)\<rparr>,
          [example_row, other_row, scenario_row (Fin 5) ''created'' JNull located_201],
          [scenario_request ''5.00'' ''500''])
   \<and> success \<lparr>http_status = 200,
               content = CreatedBody ''uuid-1'' ''uuid-2'' JNull (op_of located_201)\<rparr>
   \<and> (\<exists>l i u rq r row.
         [scenario_request ''5.00'' ''500''] = [rq] \<and> fetch (remote located_201) rq = Resolves r
         \<and> \<lparr>http_status = 200,
             content = CreatedBody ''uuid-1'' ''uuid-2'' JNull (op_of located_201)\<rparr>
             = \<lparr>http_status = 200, content = CreatedBody l i u (op_of r)\<rparr>
         \<and> [example_row, other_row, scenario_row (Fin 5) ''created'' JNull located_201]
             = [example_row, other_row] @ [row]
         \<and> (\<not> is_array u \<longrightarrow> p_resource_url row = bound u)
         \<and> u = (case r_body r of
                  Unparsable t \<Rightarrow> JNull
                | Parsed j \<Rightarrow>
                    if truthy j \<and> truthy (get_prop j ''id'') then get_prop j ''id''
                    else (case map_of (r_headers r) ''location'' of
                            Some (v # vs) \<Rightarrow> if truthy j \<and> v \<noteq> [] then JStr v else JNull
                          | _ \<Rightarrow> JNull)))
   \<and> p_resource_url (scenario_row (Fin 5) ''created'' JNull located_201) = SqlNull"
proof -
  have ok: "success \<lparr>http_status = 200,
               content = CreatedBody ''uuid-1'' ''uuid-2'' JNull (op_of located_201)\<rparr>"
    by (simp add: success_def)
  have h: "map_of (r_headers located_201) ''location'' = Some [resource]"
    and b: "r_body located_201 = Unparsable []"
    by (simp_all add: located_201_def)
  have "p_resource_url (scenario_row (Fin 5) ''created'' JNull located_201) = SqlNull"
    by (simp add: scenario_row_def)
  with resource_url_of_creation [OF scenario_located_201 ok] scenario_located_201 ok h b
  show ?thesis by blast
qed

text \<open>
  C9. In every successful creation the same \<^verbatim>\<open>localId\<close> is in the three places where
  it is used: the \<^verbatim>\<open>localId\<close> of the reply, the \<^verbatim>\<open>metadata.localId\<close> of the payload of
  the one outbound request, and the \<^verbatim>\<open>local_id\<close> of the one row appended to the table.
\<close>

theorem localId_is_shared:
  assumes "create_payment cfg fx body d = (rep, d', reqs)" and "success rep"
  shows "\<exists>l i u op rq pl row.
           rep = \<lparr>http_status = 200, content = CreatedBody l i u op\<rparr>
           \<and> reqs = [rq] \<and> rq_body rq = Some pl \<and> metadata_localId pl = l
           \<and> d' = d @ [row] \<and> p_local_id row = l"
proof -
  let ?parsed = "ToNumber (get_prop body ''amount'')"
  from create_payment_stored [OF assms(1)] assms(2) obtain p ex r where
    rq: "reqs = [incoming_payment_request cfg p (build_payload fx body ?parsed p ex)]"
    and d': "d' = d @ [build_row fx body ?parsed p (op_of r)]"
    and rep: "rep = \<lparr>http_status = 200,
                     content = CreatedBody (fst (randomUUID fx)) (snd (randomUUID fx))
                                 (extract_resource_url (op_of r)) (op_of r)\<rparr>"
    by blast
  have "rq_body (incoming_payment_request cfg p (build_payload fx body ?parsed p ex))
          = Some (build_payload fx body ?parsed p ex)"
    by (simp add: incoming_payment_request_def)
  moreover have "metadata_localId (build_payload fx body ?parsed p ex) = fst (randomUUID fx)"
    by (simp add: build_payload_def)
  moreover have "p_local_id (build_row fx body ?parsed p (op_of r)) = fst (randomUUID fx)"
    by (simp add: build_row_def)
  ultimately show ?thesis using rq d' rep by blast
qed

theorem localId_is_shared_witness:
  "create_payment example_config (remote created_201) (pay (JStr ''5.00'')) [example_row, other_row]
     = (\<lparr>http_status = 200,
         content = CreatedBody ''uuid-1'' ''uuid-2'' (JStr resource) (op_of created_201)\<rparr>,
        [example_row, other_row, scenario_row (Fin 5) ''created'' (JStr resource) created_201],
        [scenario_request ''5.00'' ''500''])
   \<and> success \<lparr>http_status = 200,
               content = CreatedBody ''uuid-1'' ''uuid-2'' (JStr resource) (op_of created_201)\<rparr>
   \<and> (\<exists>l i u op rq pl row.
         \<lparr>http_status = 200,
          content = CreatedBody ''uuid-1'' ''uuid-2'' (JStr resource) (op_of created_201)\<rparr>
           = \<lparr>http_status = 200, content = CreatedBody l i u op\<rparr>
         \<and> [scenario_request ''5.00'' ''500''] = [rq] \<and> rq_body rq = Some pl
         \<and> metadata_localId pl = l
         \<and> [example_row, other_row, scenario_row (Fin 5) ''created'' (JStr resource) created_201]
             = [example_row, other_row] @ [row]
         \<and> p_local_id row = l)
   \<and> metadata_localId (the (rq_body (scenario_request ''5.00'' ''500''))) = ''uuid-1''
   \<and> p_local_id (scenario_row (Fin 5) ''created'' (JStr resource) created_201) = ''uuid-1''"
proof -
  have ok: "success \<lparr>http_status = 200,
               content = CreatedBody ''uuid-1'' ''uuid-2'' (JStr resource) (op_of created_201)\<rparr>"
    by (simp add: success_def)
  have "metadata_localId (the (rq_body (scenario_request ''5.00'' ''500''))) = ''uuid-1''"
    and "p_local_id (scenario_row (Fin 5) ''created'' (JStr resource) created_201) = ''uuid-1''"
    by (simp_all add: scenario_request_def scenario_row_def)
  with localId_is_shared [OF scenario_created_201 ok] scenario_created_201 ok
  show ?thesis by blast
qed

section \<open>The amount sent\<close>

text \<open>
  The amount \<^verbatim>\<open>19.99\<close> is the double \<open>5626684784446013 / 2\<^sup>4\<^sup>8\<close>; its product with 100
  is the double \<open>8791694975696895 / 2\<^sup>4\<^sup>2\<close>, a little below 1999, which \<^verbatim>\<open>Math.round\<close>
  takes to 1999: the value sent is \<^verbatim>\<open>1999\<close>, as the specification has it.
\<close>

lemma amount_19_99:
  "StringToNumber ''19.99'' = Fin (5626684784446013 / 2 ^ 48)
   \<and> js_mul (Fin (5626684784446013 / 2 ^ 48)) (Fin 100) = Fin (8791694975696895 / 2 ^ 42)
   \<and> valueInt (Fin (5626684784446013 / 2 ^ 48)) = ''1999''
   \<and> spec_minor_units (1999 / 100) = ''1999''"
proof -
  have "ilog2 (1999 / 100) = 4" by (rule ilog2_eqI) (simp_all add: pow2_def)
  then have n: "fl (1999 / 100) = Fin (5626684784446013 / 2 ^ 48)"
    by (simp add: fl_def pow2_def round_half_even_def Let_def floor_numeral_div)
  have num: "StringToNumber ''19.99'' = Fin (5626684784446013 / 2 ^ 48)"
    by (simp add: string_to_number_simps n)
  have "ilog2 (5626684784446013 / 2 ^ 48 * 100) = 10" by (rule ilog2_eqI) (simp_all add: pow2_def)
  then have "fl (5626684784446013 / 2 ^ 48 * 100) = Fin (8791694975696895 / 2 ^ 42)"
    by (simp add: fl_def pow2_def round_half_even_def Let_def floor_numeral_div)
  then have p: "js_mul (Fin (5626684784446013 / 2 ^ 48)) (Fin 100)
                  = Fin (8791694975696895 / 2 ^ 42)"
    by simp
  have r: "round (8791694975696895 / 2 ^ 42 :: rat) = 1999"
    by (simp add: round_def floor_numeral_div)
  have d: "digits_of 1999 = ''1999''"
    by (simp add: digits_of_numeral digits_of_small)
  from valueInt_small [OF p] r d have v: "valueInt (Fin (5626684784446013 / 2 ^ 48)) = ''1999''"
    by simp
  have s: "spec_minor_units (1999 / 100) = ''1999''"
    by (simp add: spec_minor_units_def d)
  from num p v s show ?thesis by simp
qed

text \<open>
  C8. The claim renders \<open>round(a \<times> 100)\<close> as a base-10 integer string for every accepted
  positive amount. The handler sends \<^verbatim>\<open>Math.round(parsed * 100).toString()\<close>. For the
  product \<open>p\<close> of an accepted amount with 100, computed in double precision and finite:
  when \<open>\<lfloor>p + 1/2\<rfloor>\<close> is below \<open>2\<^sup>5\<^sup>3\<close> the value sent is that integer written with its
  decimal digits and nothing else, as claimed; when it is below \<open>10\<^sup>2\<^sup>1\<close> the value is
  still a string of digits, those of the shortest decimal that rounds to the same
  double. The validation sets no upper bound on the amount, and \<^verbatim>\<open>toString\<close> prints an
  integer from \<open>10\<^sup>2\<^sup>1\<close> on in exponential notation: there the value sent has an
  exponent and is not an integer string, against the handler's own note that the value
  must be the string of an integer.
\<close>

theorem minor_units_of_accepted_amount:
  assumes "create_payment cfg fx body d = (rep, d', reqs)" and "reqs \<noteq> []"
      and "js_mul (ToNumber (get_prop body ''amount'')) (Fin 100) = Fin pr"
  shows "\<exists>rq pl.
           reqs = [rq] \<and> rq_body rq = Some pl
           \<and> 0 \<le> round pr
           \<and> (round pr < 2 ^ 53
                \<longrightarrow> incomingAmount_value pl = digits_of (nat (round pr))
                    \<and> radix_val 10 0 (incomingAmount_value pl) = Some (nat (round pr)))
           \<and> (round pr < 10 ^ 21
                \<longrightarrow> incomingAmount_value pl = digits_of (shortest (nat (round pr)))
                    \<and> incomingAmount_value pl \<noteq> []
                    \<and> set (incomingAmount_value pl) \<subseteq> set ''0123456789'')
           \<and> (10 ^ 21 \<le> round pr
                \<longrightarrow> incomingAmount_value pl = exponential (nat (round pr))
                    \<and> CHR ''e'' \<in> set (incomingAmount_value pl)
                    \<and> \<not> set (incomingAmount_value pl) \<subseteq> set ''0123456789'')"
proof -
  let ?parsed = "ToNumber (get_prop body ''amount'')"
  from create_payment_sent [OF assms(1,2)] obtain p ex where
    ok: "\<not> isNaN ?parsed" "\<not> js_le ?parsed (Fin 0)"
    and rq: "reqs = [incoming_payment_request cfg p (build_payload fx body ?parsed p ex)]"
    by blast
  let ?pl = "build_payload fx body ?parsed p ex"
  have v: "incomingAmount_value ?pl = valueInt ?parsed"
    by (simp add: build_payload_def)
  from accepted_product_nonneg [OF ok assms(3)] have pos: "0 \<le> pr" .
  then have r0: "0 \<le> round pr" by (simp add: round_def)
  have small: "incomingAmount_value ?pl = digits_of (nat (round pr))
               \<and> radix_val 10 0 (incomingAmount_value ?pl) = Some (nat (round pr))"
    if "round pr < 2 ^ 53"
    using valueInt_small [OF assms(3) pos that] digits_of_value [of "nat (round pr)"]
    by (simp add: v)
  have digits: "incomingAmount_value ?pl = digits_of (shortest (nat (round pr)))
                \<and> incomingAmount_value ?pl \<noteq> []
                \<and> set (incomingAmount_value ?pl) \<subseteq> set ''0123456789''"
    if "round pr < 10 ^ 21"
    using valueInt_digits [OF assms(3) pos that]
          digits_of_nonempty [of "shortest (nat (round pr))"]
          digits_of_digits [of "shortest (nat (round pr))"]
    by (simp add: v)
  have large: "incomingAmount_value ?pl = exponential (nat (round pr))
               \<and> CHR ''e'' \<in> set (incomingAmount_value ?pl)
               \<and> \<not> set (incomingAmount_value ?pl) \<subseteq> set ''0123456789''"
    if "10 ^ 21 \<le> round pr"
  proof -
    from valueInt_large [OF assms(3) that]
    have e: "incomingAmount_value ?pl = exponential (nat (round pr))" by (simp add: v)
    with exponential_has_exponent [of "nat (round pr)"]
    have "CHR ''e'' \<in> set (incomingAmount_value ?pl)" by simp
    moreover have "CHR ''e'' \<notin> set ''0123456789''" by simp
    ultimately show ?thesis using e by blast
  qed
  have b: "rq_body (incoming_payment_request cfg p ?pl) = Some ?pl"
    by (simp add: incoming_payment_request_def)
  from rq b r0 small digits large show ?thesis
    by (intro exI [of _ "incoming_payment_request cfg p ?pl"] exI [of _ ?pl]) blast
qed

text \<open>
  The amount \<^verbatim>\<open>1e19\<close> is accepted; its product with 100 is \<open>10\<^sup>2\<^sup>1\<close>, and the value sent
  is \<^verbatim>\<open>1e+21\<close>, not \<^verbatim>\<open>1000000000000000000000\<close>.
\<close>

theorem large_amount_is_sent_in_exponential_notation:
  "ToNumber (JStr ''1e19'') = Fin (10 ^ 19)
   \<and> create_payment example_config (remote created_201) (pay (JStr ''1e19''))
         [example_row, other_row]
       = (\<lparr>http_status = 200,
           content = CreatedBody ''uuid-1'' ''uuid-2'' (JStr resource) (op_of created_201)\<rparr>,
          [example_row, other_row,
           scenario_row (Fin (10 ^ 19)) ''created'' (JStr resource) created_201],
          [scenario_request ''1e19'' ''1e+21''])
   \<and> js_mul (ToNumber (get_prop (pay (JStr ''1e19'')) ''amount'')) (Fin 100) = Fin (10 ^ 21)
   \<and> (10 :: int) ^ 21 \<le> round (10 ^ 21 :: rat)
   \<and> (\<exists>rq pl.
         [scenario_request ''1e19'' ''1e+21''] = [rq] \<and> rq_body rq = Some pl
         \<and> incomingAmount_value pl = ''1e+21''
         \<and> incomingAmount_value pl = exponential (nat (round (10 ^ 21 :: rat)))
         \<and> \<not> set (incomingAmount_value pl) \<subseteq> set ''0123456789'')
   \<and> spec_minor_units (10 ^ 19) = ''1000000000000000000000''"
proof -
  have "ilog2 (10 ^ 19) = 63" by (rule ilog2_eqI) (simp_all add: pow2_def)
  then have n: "fl 10000000000000000000 = Fin 10000000000000000000"
    by (simp add: fl_def pow2_def round_half_even_def Let_def)
  have num: "StringToNumber ''1e19'' = Fin 10000000000000000000"
    by (simp add: string_to_number_simps n)
  have "ilog2 (10 ^ 21) = 69" by (rule ilog2_eqI) (simp_all add: pow2_def)
  then have a: "fl 1000000000000000000000 = Fin 1000000000000000000000"
    by (simp add: fl_def pow2_def round_half_even_def Let_def)
  have "ilog2 (2 * 10 ^ 21) = 70" by (rule ilog2_eqI) (simp_all add: pow2_def)
  then have b: "fl 2000000000000000000000 = Fin 2000000000000000000000"
    by (simp add: fl_def pow2_def round_half_even_def Let_def)
  have d: "digits_of 1000000000000000000000 = ''1000000000000000000000''"
    by (simp add: digits_of_numeral digits_of_small)
  have c: "candidate 1000000000000000000000 1 = Some 1000000000000000000000"
    using a b by (simp add: candidate_def d Let_def)
  have s: "shortest 1000000000000000000000 = 1000000000000000000000"
    using c by (simp add: shortest_def)
  have l: "length (digits_of 1000000000000000000000) - 1 = 21"
    by (simp add: d)
  have e: "exponential 1000000000000000000000 = ''1e+21''"
    unfolding exponential_def Let_def s l
    by (simp add: d digits_of_numeral digits_of_small)
  from a e have v: "valueInt (Fin 10000000000000000000) = ''1e+21''"
    by (simp add: valueInt_def assetScale_def magnitude_toString_def floor_numeral_div)
  have run: "create_payment example_config (remote created_201) (pay (JStr ''1e19''))
         [example_row, other_row]
       = (\<lparr>http_status = 200,
           content = CreatedBody ''uuid-1'' ''uuid-2'' (JStr resource) (op_of created_201)\<rparr>,
          [example_row, other_row,
           scenario_row (Fin (10 ^ 19)) ''created'' (JStr resource) created_201],
          [scenario_request ''1e19'' ''1e+21''])"
    by (simp add: scenario_simps num v extract_resource_url_eq op_of_json statusText_def
          created_201_def resource_def)
  have sent: "[scenario_request ''1e19'' ''1e+21''] \<noteq> []" by simp
  have prod: "js_mul (ToNumber (get_prop (pay (JStr ''1e19'')) ''amount'')) (Fin 100)
                = Fin (10 ^ 21)"
    by (simp add: pay_def num a)
  have big: "(10 :: int) ^ 21 \<le> round (10 ^ 21 :: rat)" by (simp add: round_def)
  have spec: "spec_minor_units (10 ^ 19) = ''1000000000000000000000''"
    by (simp add: spec_minor_units_def d)
  from minor_units_of_accepted_amount [OF run sent prod] big
  obtain rq pl where
    rq: "[scenario_request ''1e19'' ''1e+21''] = [rq]" and pl: "rq_body rq = Some pl"
    and ex: "incomingAmount_value pl = exponential (nat (round (10 ^ 21 :: rat)))"
    and nd: "\<not> set (incomingAmount_value pl) \<subseteq> set ''0123456789''"
    by blast
  have val: "incomingAmount_value pl = ''1e+21''"
  proof -
    from rq have "rq_body rq = rq_body (scenario_request ''1e19'' ''1e+21'')" by simp
    with pl have "pl = the (rq_body (scenario_request ''1e19'' ''1e+21''))" by simp
    then show ?thesis by (simp add: scenario_request_def)
  qed
  from num have "ToNumber (JStr ''1e19'') = Fin (10 ^ 19)" by simp
  with run prod big spec rq pl val ex nd show ?thesis
    by (intro conjI exI [of _ rq] exI [of _ pl]) simp_all
qed

end
